theory Spec2Isabelle
  imports Main
begin

section \<open>Values and strings of the renderer\<close>

text \<open>
  The renderer (\<^verbatim>\<open>renderer.js\<close>) keeps the catalog in the module variable
  \<^verbatim>\<open>allGames\<close>, an array of plain objects parsed from JSON. A field of such an
  object may be absent, \<^verbatim>\<open>null\<close>, a string or a number. Strings are modelled as
  \<^typ>\<open>string\<close>, one \<^typ>\<open>char\<close> per code unit below 256; numbers as integers.
\<close>

datatype jsval = Undefined | Null | Str string | Num int

text \<open>JavaScript truthiness, as used by \<^verbatim>\<open>g.appid && ...\<close>.\<close>

fun truthy :: "jsval \<Rightarrow> bool" where
  "truthy Undefined = False"
| "truthy Null = False"
| "truthy (Str s) = (s \<noteq> [])"
| "truthy (Num n) = (n \<noteq> 0)"

definition upper_letters :: string where
  "upper_letters = ''ABCDEFGHIJKLMNOPQRSTUVWXYZ''"

definition lower_letters :: string where
  "lower_letters = ''abcdefghijklmnopqrstuvwxyz''"

text \<open>The capital letters of Latin-1 (0xC0 to 0xDE without the multiplication sign) and
  their small letters, 0x20 above.\<close>

definition latin1_upper :: string where
  "latin1_upper =
     [CHR 0xC0, CHR 0xC1, CHR 0xC2, CHR 0xC3, CHR 0xC4, CHR 0xC5, CHR 0xC6, CHR 0xC7, CHR
      0xC8, CHR 0xC9, CHR 0xCA, CHR 0xCB, CHR 0xCC, CHR 0xCD, CHR 0xCE, CHR 0xCF, CHR
      0xD0, CHR 0xD1, CHR 0xD2, CHR 0xD3, CHR 0xD4, CHR 0xD5, CHR 0xD6, CHR 0xD8, CHR
      0xD9, CHR 0xDA, CHR 0xDB, CHR 0xDC, CHR 0xDD, CHR 0xDE]"

definition latin1_lower :: string where
  "latin1_lower =
     [CHR 0xE0, CHR 0xE1, CHR 0xE2, CHR 0xE3, CHR 0xE4, CHR 0xE5, CHR 0xE6, CHR 0xE7, CHR
      0xE8, CHR 0xE9, CHR 0xEA, CHR 0xEB, CHR 0xEC, CHR 0xED, CHR 0xEE, CHR 0xEF, CHR
      0xF0, CHR 0xF1, CHR 0xF2, CHR 0xF3, CHR 0xF4, CHR 0xF5, CHR 0xF6, CHR 0xF8, CHR
      0xF9, CHR 0xFA, CHR 0xFB, CHR 0xFC, CHR 0xFD, CHR 0xFE]"

text \<open>\<^verbatim>\<open>String.prototype.toLowerCase\<close> on the code units below 256.\<close>

definition toLowerChar :: "char \<Rightarrow> char" where
  "toLowerChar c =
     (case map_of (zip (upper_letters @ latin1_upper) (lower_letters @ latin1_lower)) c of
        Some l \<Rightarrow> l
      | None \<Rightarrow> c)"

definition toLowerCase :: "string \<Rightarrow> string" where
  "toLowerCase s = map toLowerChar s"

text \<open>White space as \<^verbatim>\<open>trim()\<close> and the regular expression class \<^verbatim>\<open>\s\<close> see it
  (tab, line feed, vertical tab, form feed, carriage return, space, no-break space).\<close>

definition is_space :: "char \<Rightarrow> bool" where
  "is_space c = (c \<in> set [CHR 0x09, CHR 0x0A, CHR 0x0B, CHR 0x0C, CHR 0x0D, CHR 0x20, CHR 0xA0])"

definition trim :: "string \<Rightarrow> string" where
  "trim s = rev (dropWhile is_space (rev (dropWhile is_space s)))"

fun digit_char :: "nat \<Rightarrow> char" where
  "digit_char n = (''0123456789'' ! (n mod 10))"

fun string_of_nat :: "nat \<Rightarrow> string" where
  "string_of_nat n = (if n < 10 then [digit_char n] else string_of_nat (n div 10) @ [digit_char n])"

definition string_of_int :: "int \<Rightarrow> string" where
  "string_of_int i = (if i < 0 then CHR ''-'' # string_of_nat (nat (- i)) else string_of_nat (nat i))"

text \<open>What a template literal \<^verbatim>\<open>`${v}`\<close> prints for a value (for a number, as long
  as it prints without an exponent, that is below \<open>10\<^sup>2\<^sup>1\<close> in absolute value).\<close>

fun template :: "jsval \<Rightarrow> string" where
  "template Undefined = ''undefined''"
| "template Null = ''null''"
| "template (Str s) = s"
| "template (Num n) = string_of_int n"

section \<open>Catalog entries\<close>

record game =
  name :: "string option"
  platform :: "string option"
  appid :: jsval

definition PLATFORM_ALIASES :: "(string \<times> string) list" where
  "PLATFORM_ALIASES =
    [(''epicgames'', ''epic''), (''egs'', ''epic''),
     (''goggalaxy'', ''gog''), (''gog2'', ''gog''),
     (''eaapp'', ''ea''), (''origin'', ''ea''),
     (''uplay'', ''ubi''), (''ubisoft'', ''ubi''),
     (''msstore'', ''mstore''), (''microsoftstore'', ''mstore''), (''xbox'', ''mstore''),
     (''battlenet'', ''bnet''), (''blizzard'', ''bnet''),
     (''cig'', ''starcitizen''), (''sc'', ''starcitizen''),
     (''rstars'', ''rockstar''), (''rockstargames'', ''rockstar'')]"

text \<open>\<^verbatim>\<open>normalizePlatform(p)\<close>: a missing or empty platform becomes \<^verbatim>\<open>'all'\<close>;
  otherwise the lower-cased, trimmed tag, replaced by its alias when it has one. The
  alias table is an object literal; a tag that is the name of a member that every object
  inherits (such as \<^verbatim>\<open>constructor\<close>) would read that member, which is not a
  string: such tags are outside the model.\<close>

definition normalizePlatform :: "string option \<Rightarrow> string" where
  "normalizePlatform p =
     (case p of None \<Rightarrow> ''all''
      | Some q \<Rightarrow>
          if q = [] then ''all''
          else (let key = trim (toLowerCase q)
                in case map_of PLATFORM_ALIASES key of Some a \<Rightarrow> a | None \<Rightarrow> key))"

definition normalizeGame :: "game \<Rightarrow> game" where
  "normalizeGame g = g\<lparr>platform := Some (normalizePlatform (platform g))\<rparr>"

text \<open>The template \<^verbatim>\<open>`${g.platform}`\<close> of a platform field.\<close>

definition platform_text :: "game \<Rightarrow> string" where
  "platform_text g = (case platform g of None \<Rightarrow> ''undefined'' | Some p \<Rightarrow> p)"

text \<open>The exceptions of the model: a property read on \<^verbatim>\<open>undefined\<close>, a failed call of
  the \<^verbatim>\<open>fs\<close> module, a failed request or download, and the rejection of the timeout
  promise.\<close>

datatype error = TypeError | FsError | FetchError | Timeout

text \<open>The key \<^verbatim>\<open>`${g.name.toLowerCase()}_${g.platform}`\<close>. Reading
  \<^verbatim>\<open>toLowerCase\<close> of a missing name throws a TypeError.\<close>

definition nameKey :: "game \<Rightarrow> error + string" where
  "nameKey g =
     (case name g of None \<Rightarrow> Inl TypeError
      | Some n \<Rightarrow> Inr (toLowerCase n @ ''_'' @ platform_text g))"

text \<open>\<^verbatim>\<open>xs.map(nameKey)\<close>, stopping at the first exception.\<close>

fun nameKeys :: "game list \<Rightarrow> error + string list" where
  "nameKeys [] = Inr []"
| "nameKeys (g # gs) =
     (case nameKey g of Inl e \<Rightarrow> Inl e
      | Inr k \<Rightarrow> (case nameKeys gs of Inl e \<Rightarrow> Inl e | Inr ks \<Rightarrow> Inr (k # ks)))"

text \<open>The callback of \<^verbatim>\<open>normalizedGames.filter\<close> in \<^verbatim>\<open>appendNewGames\<close>: both
  sets were built before the filter started and are not extended by it.\<close>

fun uniqueGames :: "jsval list \<Rightarrow> string list \<Rightarrow> game list \<Rightarrow> error + game list" where
  "uniqueGames existingAppIds existingNames [] = Inr []"
| "uniqueGames existingAppIds existingNames (g # gs) =
     (case nameKey g of Inl e \<Rightarrow> Inl e
      | Inr key \<Rightarrow>
          (let isDuplicateById = (truthy (appid g) \<and> appid g \<in> set existingAppIds);
               isDuplicateByName = (key \<in> set existingNames)
           in case uniqueGames existingAppIds existingNames gs of Inl e \<Rightarrow> Inl e
              | Inr rest \<Rightarrow>
                  if \<not> isDuplicateById \<and> \<not> isDuplicateByName then Inr (g # rest) else Inr rest))"

section \<open>Sorting and filtering for the render pass\<close>

fun startsWith :: "string \<Rightarrow> string \<Rightarrow> bool" where
  "startsWith s [] = True"
| "startsWith [] (p # ps) = False"
| "startsWith (c # cs) (p # ps) = (c = p \<and> startsWith cs ps)"

text \<open>\<^verbatim>\<open>s.includes(sub)\<close>.\<close>

fun includes_str :: "string \<Rightarrow> string \<Rightarrow> bool" where
  "includes_str [] sub = (sub = [])"
| "includes_str (c # cs) sub = (startsWith (c # cs) sub \<or> includes_str cs sub)"

text \<open>The alternatives of the regular expression
  \<^verbatim>\<open>/^(the|a|an|le|la|les|l'|un|une|des)\s+/i\<close>, in its order.\<close>

definition articles :: "string list" where
  "articles = [''the'', ''a'', ''an'', ''le'', ''la'', ''les'', ''l'' @ [CHR 0x27], ''un'', ''une'', ''des'']"

text \<open>The first alternative that matches at the start of the name and is followed by
  white space is removed together with all the white space after it; a name that no
  alternative matches is left as it is.\<close>

fun strip_article :: "string list \<Rightarrow> string \<Rightarrow> string" where
  "strip_article [] s = s"
| "strip_article (a # as) s =
     (let rest = drop (length a) s
      in if startsWith (toLowerCase s) a \<and> rest \<noteq> [] \<and> is_space (hd rest)
         then dropWhile is_space rest
         else strip_article as s)"

text \<open>\<^verbatim>\<open>replace(/\s+/g, ' ')\<close>: every run of white space becomes one space. The flag
  tells that the previous character was white space.\<close>

fun squeeze :: "bool \<Rightarrow> string \<Rightarrow> string" where
  "squeeze prev [] = []"
| "squeeze prev (c # cs) =
     (if is_space c then (if prev then squeeze True cs else CHR '' '' # squeeze True cs)
      else c # squeeze False cs)"

text \<open>\<^verbatim>\<open>getSortName(name)\<close>. Of the three symbols that the source removes, the
  copyright sign (0xA9) and the registered sign (0xAE) are code units below 256; the
  trade mark sign is not and cannot occur in a \<^typ>\<open>string\<close>.\<close>

definition getSortName :: "string \<Rightarrow> string" where
  "getSortName n =
     (let sortName = strip_article articles n;
          sortName = filter (\<lambda>c. c \<noteq> CHR 0xA9 \<and> c \<noteq> CHR 0xAE) sortName
      in trim (squeeze False sortName))"

text \<open>
  \<^verbatim>\<open>a.localeCompare(b, 'fr', { sensitivity: 'base', numeric: true })\<close> is a built-in
  of the JavaScript engine. The model below compares at the first collation level
  only, as base sensitivity does: a string is read as a sequence of collation elements,
  where a run of digits is one number, a letter counts without its case and without its
  diacritic, white space sorts before digits and digits before letters. It is meant for
  names made of letters, digits and spaces; any other character (punctuation, symbols,
  and the letters of Latin-1 that are not a base letter with a diacritic) is ranked by
  its code unit between white space and the digits, where the engine has a table of its
  own.
\<close>

datatype celem = CSpace | COther nat | CNum nat | CLetter nat

definition is_digit :: "char \<Rightarrow> bool" where
  "is_digit c = (c \<in> set ''0123456789'')"

fun index_of :: "'a \<Rightarrow> 'a list \<Rightarrow> nat option" where
  "index_of x [] = None"
| "index_of x (y # ys) = (if x = y then Some 0 else map_option Suc (index_of x ys))"

definition digit_value :: "char \<Rightarrow> nat" where
  "digit_value c = (case index_of c ''0123456789'' of Some d \<Rightarrow> d | None \<Rightarrow> 0)"

text \<open>The accented small letters of Latin-1 that are a base letter with a diacritic.\<close>

definition accented :: "(char \<times> char) list" where
  "accented =
     [(CHR 0xE0, CHR ''a''), (CHR 0xE1, CHR ''a''), (CHR 0xE2, CHR ''a''), (CHR 0xE3, CHR
      ''a''), (CHR 0xE4, CHR ''a''), (CHR 0xE5, CHR ''a''), (CHR 0xE7, CHR ''c''), (CHR
      0xE8, CHR ''e''), (CHR 0xE9, CHR ''e''), (CHR 0xEA, CHR ''e''), (CHR 0xEB, CHR
      ''e''), (CHR 0xEC, CHR ''i''), (CHR 0xED, CHR ''i''), (CHR 0xEE, CHR ''i''), (CHR
      0xEF, CHR ''i''), (CHR 0xF1, CHR ''n''), (CHR 0xF2, CHR ''o''), (CHR 0xF3, CHR
      ''o''), (CHR 0xF4, CHR ''o''), (CHR 0xF5, CHR ''o''), (CHR 0xF6, CHR ''o''), (CHR
      0xF9, CHR ''u''), (CHR 0xFA, CHR ''u''), (CHR 0xFB, CHR ''u''), (CHR 0xFC, CHR
      ''u''), (CHR 0xFD, CHR ''y''), (CHR 0xFF, CHR ''y'')]"

definition base_letter :: "char \<Rightarrow> char" where
  "base_letter c = (case map_of accented c of Some b \<Rightarrow> b | None \<Rightarrow> c)"

definition letter_index :: "char \<Rightarrow> nat option" where
  "letter_index c = index_of (base_letter (toLowerChar c)) lower_letters"

text \<open>The collation elements of a string; the accumulator holds the number read so far.\<close>

fun celems :: "nat option \<Rightarrow> string \<Rightarrow> celem list" where
  "celems None [] = []"
| "celems (Some n) [] = [CNum n]"
| "celems acc (c # cs) =
     (if is_digit c
      then celems (Some ((case acc of None \<Rightarrow> 0 | Some n \<Rightarrow> 10 * n) + digit_value c)) cs
      else (case acc of None \<Rightarrow> [] | Some n \<Rightarrow> [CNum n]) @
           (if is_space c then CSpace
            else case letter_index c of Some i \<Rightarrow> CLetter i | None \<Rightarrow> COther (of_char c)) #
           celems None cs)"

fun celem_rank :: "celem \<Rightarrow> nat \<times> nat" where
  "celem_rank CSpace = (0, 0)"
| "celem_rank (COther n) = (1, n)"
| "celem_rank (CNum n) = (2, n)"
| "celem_rank (CLetter n) = (3, n)"

fun compare_celems :: "celem list \<Rightarrow> celem list \<Rightarrow> int" where
  "compare_celems [] [] = 0"
| "compare_celems [] (y # ys) = -1"
| "compare_celems (x # xs) [] = 1"
| "compare_celems (x # xs) (y # ys) =
     (if celem_rank x = celem_rank y then compare_celems xs ys
      else if fst (celem_rank x) < fst (celem_rank y)
              \<or> (fst (celem_rank x) = fst (celem_rank y) \<and> snd (celem_rank x) < snd (celem_rank y))
           then -1 else 1)"

definition localeCompare :: "string \<Rightarrow> string \<Rightarrow> int" where
  "localeCompare a b = compare_celems (celems None a) (celems None b)"

text \<open>\<^verbatim>\<open>Array.prototype.sort\<close> with a comparator is stable; with a comparator that is
  a consistent order, every stable sort gives the list that insertion gives.\<close>

fun insort_by :: "('a \<Rightarrow> 'a \<Rightarrow> int) \<Rightarrow> 'a \<Rightarrow> 'a list \<Rightarrow> 'a list" where
  "insort_by cmp x [] = [x]"
| "insort_by cmp x (y # ys) = (if cmp x y \<le> 0 then x # y # ys else y # insort_by cmp x ys)"

definition sort_by :: "('a \<Rightarrow> 'a \<Rightarrow> int) \<Rightarrow> 'a list \<Rightarrow> 'a list" where
  "sort_by cmp xs = foldr (insort_by cmp) xs []"

text \<open>The name of a game that is known to have one (after the filter of the render pass).\<close>

definition name_text :: "game \<Rightarrow> string" where
  "name_text g = (case name g of None \<Rightarrow> [] | Some n \<Rightarrow> n)"

text \<open>The comparator of \<^verbatim>\<open>filtered.sort\<close> in \<^verbatim>\<open>sortAndRender\<close>.\<close>

definition compareGames :: "string \<Rightarrow> game \<Rightarrow> game \<Rightarrow> int" where
  "compareGames sortVal a b =
     (let aSortName = getSortName (name_text a);
          bSortName = getSortName (name_text b)
      in if startsWith sortVal ''Z'' then localeCompare bSortName aSortName
         else localeCompare aSortName bSortName)"

definition sortGames :: "string \<Rightarrow> game list \<Rightarrow> game list" where
  "sortGames sortVal gs = sort_by (compareGames sortVal) gs"

section \<open>State of the renderer\<close>

text \<open>A pending \<^verbatim>\<open>setTimeout\<close>: its handle, its delay in milliseconds and what it
  runs when it fires: the safety timeout of \<^verbatim>\<open>setupProcessHandlers\<close> for one child
  process, the delayed \<^verbatim>\<open>setScanningUI(false)\<close> of \<^verbatim>\<open>endScan\<close>, or the debounced
  body of \<^verbatim>\<open>sortAndRender(useProgressBar)\<close>. The timers of \<^verbatim>\<open>showToast\<close> and the
  card timers of the render pass only change elements of the page and are left out.\<close>

datatype timer_action =
    ScanTimeout nat
  | ResetScanUI
  | Render bool

record timer =
  handle :: nat
  delay :: nat
  action :: timer_action

text \<open>What the handlers of a child process call when it fails: the primary executable
  falls back to the Python script; a Python command advances the \<^verbatim>\<open>commandIndex\<close>
  of the closure it belongs to and tries the next command.\<close>

datatype callback = FallbackToPython | NextPythonCommand nat

text \<open>The module variables \<^verbatim>\<open>allGames\<close>, \<^verbatim>\<open>isScanning\<close>, \<^verbatim>\<open>scanTimer\<close>,
  \<^verbatim>\<open>sortAndRenderTimer\<close> and \<^verbatim>\<open>activeFilter\<close>; the pending timers of the event
  loop; the child processes spawned so far, the handlers registered on them, the
  processes a timeout has killed and the processes that have closed; one \<^verbatim>\<open>commandIndex\<close> cell for every call of
  \<^verbatim>\<open>tryPythonFallback\<close>; the calls of \<^verbatim>\<open>fetchGameImage\<close> made so far; and what the
  functions read from the page and the disk: the \<^verbatim>\<open>disabled\<close> attribute of the
  refresh button, whether \<^verbatim>\<open>#game-container\<close> and \<^verbatim>\<open>#progress-indicator\<close> exist,
  whether the scanner executable and the Python script exist, the search box, the
  sort selection and the favourites.\<close>

record app =
  allGames :: "game list"
  isScanning :: bool
  refresh_disabled :: bool
  scanTimer :: "nat option"
  timers :: "timer list"
  next_handle :: nat
  spawned :: "(nat \<times> string) list"
  handlers :: "(nat \<times> callback option) list"
  killed :: "nat list"
  exited :: "nat list"
  commandIndex :: "nat list"
  sortAndRenderTimer :: "nat option"
  fetched :: "game list"
  has_container :: bool
  has_progress_indicator :: bool
  exe_exists :: bool
  script_exists :: bool
  activeFilter :: string
  searchVal :: string
  sortVal :: string
  favorites :: "jsval list"

text \<open>\<^verbatim>\<open>appendNewGames(newGames)\<close>. The function returns at once on an empty batch
  or when the container element is missing. The duplicate sets are taken from
  \<^verbatim>\<open>allGames\<close> once; the games that pass the filter are pushed together. The list
  \<^verbatim>\<open>visibleNewGames\<close> that the source computes afterwards is not used, and
  \<^verbatim>\<open>updateGameCounter\<close> only writes a text.\<close>

definition appendNewGames :: "app \<Rightarrow> game list \<Rightarrow> error + app" where
  "appendNewGames s newGames =
     (if newGames = [] then Inr s
      else if \<not> has_container s then Inr s
      else
        (let normalizedGames = map normalizeGame newGames;
             existingAppIds = map appid (allGames s)
         in case nameKeys (allGames s) of Inl e \<Rightarrow> Inl e
            | Inr existingNames \<Rightarrow>
                (case uniqueGames existingAppIds existingNames normalizedGames of Inl e \<Rightarrow> Inl e
                 | Inr unique \<Rightarrow>
                     if unique = [] then Inr s
                     else Inr (s\<lparr>allGames := allGames s @ unique\<rparr>))))"

text \<open>The state after a call of \<^verbatim>\<open>appendNewGames\<close>; an exception leaves it as it was
  (the function is \<^verbatim>\<open>async\<close>: the exception rejects its promise).\<close>

definition merge :: "app \<Rightarrow> game list \<Rightarrow> app" where
  "merge s batch = (case appendNewGames s batch of Inl e \<Rightarrow> s | Inr s' \<Rightarrow> s')"

subsection \<open>Timers\<close>

definition setTimeout :: "timer_action \<Rightarrow> nat \<Rightarrow> app \<Rightarrow> nat \<times> app" where
  "setTimeout a d s =
     (next_handle s,
      s\<lparr>timers := timers s @ [\<lparr>handle = next_handle s, delay = d, action = a\<rparr>],
        next_handle := next_handle s + 1\<rparr>)"

definition clearTimeout :: "nat \<Rightarrow> app \<Rightarrow> app" where
  "clearTimeout h s = s\<lparr>timers := filter (\<lambda>t. handle t \<noteq> h) (timers s)\<rparr>"

definition setScanningUI :: "bool \<Rightarrow> app \<Rightarrow> app" where
  "setScanningUI on s = s\<lparr>isScanning := on, refresh_disabled := on\<rparr>"

text \<open>\<^verbatim>\<open>endScan()\<close>: disarm the timer that \<^verbatim>\<open>scanTimer\<close> holds, then reset the
  interface one second later.\<close>

definition endScan :: "app \<Rightarrow> app" where
  "endScan s =
     (let s1 = (case scanTimer s of None \<Rightarrow> s
                | Some h \<Rightarrow> (clearTimeout h s)\<lparr>scanTimer := None\<rparr>)
      in snd (setTimeout ResetScanUI 1000 s1))"

text \<open>\<^verbatim>\<open>sortAndRender(useProgressBar)\<close>: the debounce; the body runs when the timer fires.\<close>

definition sortAndRender :: "bool \<Rightarrow> app \<Rightarrow> app" where
  "sortAndRender useProgressBar s =
     (let s1 = (case sortAndRenderTimer s of None \<Rightarrow> s | Some h \<Rightarrow> clearTimeout h s);
          (h, s2) = setTimeout (Render useProgressBar) 150 s1
      in s2\<lparr>sortAndRenderTimer := Some h\<rparr>)"

subsection \<open>The render pass\<close>

definition byPlat :: "app \<Rightarrow> game \<Rightarrow> bool" where
  "byPlat s g =
     (if activeFilter s = ''all'' then True
      else if activeFilter s = ''favorites'' then appid g \<in> set (favorites s)
      else platform g = Some (activeFilter s))"

text \<open>The callback of \<^verbatim>\<open>allGames.filter\<close>: \<^verbatim>\<open>byPlat && g.name.toLowerCase().includes(searchVal)\<close>;
  the name is read only when \<^verbatim>\<open>byPlat\<close> holds.\<close>

fun filterVisible :: "app \<Rightarrow> string \<Rightarrow> game list \<Rightarrow> error + game list" where
  "filterVisible s search [] = Inr []"
| "filterVisible s search (g # gs) =
     (if byPlat s g
      then (case name g of None \<Rightarrow> Inl TypeError
            | Some n \<Rightarrow>
                (case filterVisible s search gs of Inl e \<Rightarrow> Inl e
                 | Inr rest \<Rightarrow> if includes_str (toLowerCase n) search then Inr (g # rest) else Inr rest))
      else filterVisible s search gs)"

text \<open>\<^verbatim>\<open>renderGames\<close> and \<^verbatim>\<open>renderGamesWithProgress\<close> call \<^verbatim>\<open>fetchGameImage\<close> for
  every visible game, one after the other or in groups of eight. Neither loop looks at
  the abort controller, so every call is made in the end; the model records them when
  the pass starts.\<close>

definition renderGames :: "game list \<Rightarrow> app \<Rightarrow> app" where
  "renderGames visible s =
     (if \<not> has_container s \<or> \<not> has_progress_indicator s then s
      else s\<lparr>fetched := fetched s @ visible\<rparr>)"

definition renderGamesWithProgress :: "game list \<Rightarrow> app \<Rightarrow> app" where
  "renderGamesWithProgress visible s =
     (if \<not> has_container s then s else s\<lparr>fetched := fetched s @ visible\<rparr>)"

text \<open>The body of the debounced timer of \<^verbatim>\<open>sortAndRender\<close>.\<close>

definition render :: "bool \<Rightarrow> app \<Rightarrow> error + app" where
  "render useProgressBar s =
     (let search = toLowerCase (searchVal s);
          sortSel = (if sortVal s = [] then ''AZ'' else sortVal s)
      in case filterVisible s search (allGames s) of Inl e \<Rightarrow> Inl e
         | Inr filtered \<Rightarrow>
             (let sorted = sortGames sortSel filtered;
                  s1 = (if useProgressBar \<or> length sorted > 20
                        then renderGamesWithProgress sorted s
                        else renderGames sorted s)
              in Inr (s1\<lparr>sortAndRenderTimer := None\<rparr>)))"

subsection \<open>The scan supervisor\<close>

definition startScanProcess :: "string \<Rightarrow> app \<Rightarrow> nat \<times> app" where
  "startScanProcess executable s =
     (length (spawned s), s\<lparr>spawned := spawned s @ [(length (spawned s), executable)]\<rparr>)"

text \<open>\<^verbatim>\<open>setupProcessHandlers(scanProcess, onErrorCallback)\<close>: register the handlers of
  the process, then arm the safety timeout and store its handle in \<^verbatim>\<open>scanTimer\<close>.\<close>

definition setupProcessHandlers :: "nat \<Rightarrow> callback option \<Rightarrow> app \<Rightarrow> app" where
  "setupProcessHandlers p onErrorCallback s =
     (let s1 = s\<lparr>handlers := handlers s @ [(p, onErrorCallback)]\<rparr>;
          (h, s2) = setTimeout (ScanTimeout p) 180000 s1
      in s2\<lparr>scanTimer := Some h\<rparr>)"

definition pythonCommands :: "string list" where
  "pythonCommands = [''python'', ''py'', ''python3'']"

text \<open>\<^verbatim>\<open>tryNextPythonCommand\<close> of the closure whose \<^verbatim>\<open>commandIndex\<close> is cell \<open>k\<close>
  (every closure that was created has its cell).\<close>

definition tryNextPythonCommand :: "nat \<Rightarrow> app \<Rightarrow> app" where
  "tryNextPythonCommand k s =
     (if k \<ge> length (commandIndex s) then s
      else if commandIndex s ! k \<ge> length pythonCommands then endScan s
      else (let pythonCmd = pythonCommands ! (commandIndex s ! k);
                (p, s1) = startScanProcess pythonCmd s
            in setupProcessHandlers p (Some (NextPythonCommand k)) s1))"

definition tryPythonFallback :: "app \<Rightarrow> app" where
  "tryPythonFallback s =
     (if \<not> script_exists s then endScan s
      else tryNextPythonCommand (length (commandIndex s)) (s\<lparr>commandIndex := commandIndex s @ [0]\<rparr>))"

fun run_callback :: "callback \<Rightarrow> app \<Rightarrow> app" where
  "run_callback FallbackToPython s = tryPythonFallback s"
| "run_callback (NextPythonCommand k) s =
     (if k \<ge> length (commandIndex s) then s
      else tryNextPythonCommand k (s\<lparr>commandIndex := (commandIndex s)[k := commandIndex s ! k + 1]\<rparr>))"

text \<open>One parsed \<^verbatim>\<open>PROGRESS:\<close> line.\<close>

record progressData =
  percentage :: int
  platform_label :: string
  games_found :: int
  games :: "game list option"

text \<open>The \<^verbatim>\<open>stdout\<close> handler on a line that parsed: \<^verbatim>\<open>updateProgress\<close> writes
  texts only; a batch that is present and not empty goes to \<^verbatim>\<open>appendNewGames\<close>.\<close>

definition on_progress :: "nat \<Rightarrow> progressData \<Rightarrow> app \<Rightarrow> app" where
  "on_progress p d s =
     (case map_of (handlers s) p of None \<Rightarrow> s
      | Some cb \<Rightarrow>
          (case games d of None \<Rightarrow> s
           | Some gs \<Rightarrow> if length gs > 0 then merge s gs else s))"

text \<open>The \<^verbatim>\<open>close\<close> handler: exit code 0 asks for the final render and ends the scan;
  any other code (or none, after a signal) runs the error callback. The event itself
  tells that the process has ended, which the model notes in \<open>exited\<close>.\<close>

definition on_close :: "nat \<Rightarrow> int option \<Rightarrow> app \<Rightarrow> app" where
  "on_close p code s =
     (case map_of (handlers s) p of None \<Rightarrow> s
      | Some cb \<Rightarrow>
          (let s1 = s\<lparr>exited := exited s @ [p]\<rparr>
           in if code = Some 0 then endScan (sortAndRender False s1)
              else (case cb of Some c \<Rightarrow> run_callback c s1 | None \<Rightarrow> endScan s1)))"

definition on_error :: "nat \<Rightarrow> app \<Rightarrow> app" where
  "on_error p s =
     (case map_of (handlers s) p of None \<Rightarrow> s
      | Some cb \<Rightarrow> (case cb of Some c \<Rightarrow> run_callback c s | None \<Rightarrow> endScan s))"

text \<open>A pending timer fires: it leaves the list of pending timers and its callback runs.
  An exception in the callback of the render pass is not caught by anyone.\<close>

definition fire :: "nat \<Rightarrow> app \<Rightarrow> app" where
  "fire h s =
     (case find (\<lambda>t. handle t = h) (timers s) of None \<Rightarrow> s
      | Some t \<Rightarrow>
          (let s1 = clearTimeout h s
           in case action t of
                ScanTimeout p \<Rightarrow> endScan (s1\<lparr>killed := killed s1 @ [p]\<rparr>)
              | ResetScanUI \<Rightarrow> setScanningUI False s1
              | Render useProgressBar \<Rightarrow>
                  (case render useProgressBar s1 of Inl e \<Rightarrow> s1 | Inr s2 \<Rightarrow> s2)))"

text \<open>The \<^verbatim>\<open>onclick\<close> handler that \<^verbatim>\<open>setupRefresh\<close> installs on the refresh button:
  it empties \<^verbatim>\<open>allGames\<close> and the page, marks the scan as running and launches the
  executable, or the Python fallback when the executable is missing. It tests nothing
  before it does so.\<close>

definition refresh_onclick :: "app \<Rightarrow> app" where
  "refresh_onclick s =
     (let s1 = setScanningUI True (s\<lparr>allGames := []\<rparr>)
      in if exe_exists s1
         then (let (p, s2) = startScanProcess ''unified_scanner.exe'' s1
               in setupProcessHandlers p (Some FallbackToPython) s2)
         else tryPythonFallback s1)"

text \<open>A click of the user on the refresh button: a disabled button dispatches no click.\<close>

definition click_refresh :: "app \<Rightarrow> app" where
  "click_refresh s = (if refresh_disabled s then s else refresh_onclick s)"

datatype event =
    Click
  | Progress nat progressData
  | Close nat "int option"
  | ProcError nat
  | Fire nat

fun step :: "app \<Rightarrow> event \<Rightarrow> app" where
  "step s Click = click_refresh s"
| "step s (Progress p d) = on_progress p d s"
| "step s (Close p code) = on_close p code s"
| "step s (ProcError p) = on_error p s"
| "step s (Fire h) = fire h s"

definition run :: "event list \<Rightarrow> app \<Rightarrow> app" where
  "run evs s = foldl step s evs"

text \<open>The state when the page has loaded: no scan, no timer, an empty catalog.\<close>

definition initial :: app where
  "initial = \<lparr>allGames = [], isScanning = False, refresh_disabled = False, scanTimer = None,
     timers = [], next_handle = 1, spawned = [], handlers = [], killed = [], exited = [],
     commandIndex = [],
     sortAndRenderTimer = None, fetched = [], has_container = True,
     has_progress_indicator = True, exe_exists = True, script_exists = True,
     activeFilter = ''all'', searchVal = [], sortVal = ''AZ'', favorites = []\<rparr>"

section \<open>The image cache\<close>

text \<open>A file of the cache directory: its name, its modification time in milliseconds,
  its size in bytes, and whether \<^verbatim>\<open>statSync\<close>, \<^verbatim>\<open>utimesSync\<close> and \<^verbatim>\<open>unlinkSync\<close>
  throw on it and whether opening it for writing fails (a permission or a lock). The
  directory is the list that \<^verbatim>\<open>readdirSync\<close> returns.\<close>

record cfile =
  fname :: string
  mtime :: int
  fsize :: int
  stat_fails :: bool
  utimes_fails :: bool
  unlink_fails :: bool
  write_fails :: bool

type_synonym cache = "cfile list"

definition lookup_file :: "string \<Rightarrow> cache \<Rightarrow> cfile option" where
  "lookup_file n dir = find (\<lambda>f. fname f = n) dir"

definition remove_file :: "string \<Rightarrow> cache \<Rightarrow> cache" where
  "remove_file n dir = filter (\<lambda>f. fname f \<noteq> n) dir"

definition statSync :: "string \<Rightarrow> cache \<Rightarrow> error + cfile" where
  "statSync n dir =
     (case lookup_file n dir of None \<Rightarrow> Inl FsError
      | Some f \<Rightarrow> if stat_fails f then Inl FsError else Inr f)"

definition unlinkSync :: "string \<Rightarrow> cache \<Rightarrow> error + cache" where
  "unlinkSync n dir =
     (case lookup_file n dir of None \<Rightarrow> Inl FsError
      | Some f \<Rightarrow> if unlink_fails f then Inl FsError else Inr (remove_file n dir))"

definition utimesSync :: "string \<Rightarrow> int \<Rightarrow> cache \<Rightarrow> error + cache" where
  "utimesSync n t dir =
     (case lookup_file n dir of None \<Rightarrow> Inl FsError
      | Some f \<Rightarrow>
          if utimes_fails f then Inl FsError
          else Inr (map (\<lambda>g. if fname g = n then g\<lparr>mtime := t\<rparr> else g) dir))"

text \<open>\<^verbatim>\<open>try { fs.unlinkSync(p) } catch (e) { ... }\<close>: a failure is logged and skipped.\<close>

definition unlink_quietly :: "string \<Rightarrow> cache \<Rightarrow> cache" where
  "unlink_quietly n dir = (case unlinkSync n dir of Inl e \<Rightarrow> dir | Inr dir' \<Rightarrow> dir')"

subsection \<open>\<^verbatim>\<open>cleanupCache\<close>\<close>

definition MAX_CACHE_SIZE_MB :: int where
  "MAX_CACHE_SIZE_MB = 500"

definition MAX_FILES :: nat where
  "MAX_FILES = 1000"

text \<open>\<^verbatim>\<open>files.map(file => ... fs.statSync(filePath) ...)\<close>: the first failure throws.\<close>

fun statAll :: "string list \<Rightarrow> cache \<Rightarrow> error + cfile list" where
  "statAll [] dir = Inr []"
| "statAll (n # ns) dir =
     (case statSync n dir of Inl e \<Rightarrow> Inl e
      | Inr f \<Rightarrow> (case statAll ns dir of Inl e \<Rightarrow> Inl e | Inr fs \<Rightarrow> Inr (f # fs)))"

fun unlinkEach :: "string list \<Rightarrow> cache \<Rightarrow> cache" where
  "unlinkEach [] dir = dir"
| "unlinkEach (n # ns) dir = unlinkEach ns (unlink_quietly n dir)"

text \<open>The sum of the sizes; a file that cannot be read counts for nothing.\<close>

fun totalSize :: "string list \<Rightarrow> cache \<Rightarrow> int" where
  "totalSize [] dir = 0"
| "totalSize (n # ns) dir =
     (case statSync n dir of Inl e \<Rightarrow> 0 | Inr f \<Rightarrow> fsize f) + totalSize ns dir"

text \<open>
  The loop of the second pass. Its test is
  \<^verbatim>\<open>currentSize / (1024 * 1024) <= MAX_CACHE_SIZE_MB * 0.8\<close>; the product is the
  double 400 and the division by a power of two is exact, so the test is that of the
  integers: \<open>currentSize \<le> 400 * 1048576\<close>. In the same way
  \<^verbatim>\<open>sizeMB > MAX_CACHE_SIZE_MB\<close> is \<open>totalSize > 500 * 1048576\<close>.
\<close>

fun evict :: "cfile list \<Rightarrow> int \<Rightarrow> cache \<Rightarrow> cache" where
  "evict [] currentSize dir = dir"
| "evict (f # fs) currentSize dir =
     (if currentSize \<le> (MAX_CACHE_SIZE_MB * 8 div 10) * 1048576 then dir
      else (case unlinkSync (fname f) dir of
              Inl e \<Rightarrow> evict fs currentSize dir
            | Inr dir' \<Rightarrow> evict fs (currentSize - fsize f) dir'))"

text \<open>The first pass of \<^verbatim>\<open>cleanupCache\<close>: with more than \<^verbatim>\<open>MAX_FILES\<close> files, the
  200 files that come first by modification time are unlinked.\<close>

definition count_pass :: "string list \<Rightarrow> cache \<Rightarrow> error + cache" where
  "count_pass files dir =
     (if length files > MAX_FILES
      then (case statAll files dir of Inl e \<Rightarrow> Inl e
            | Inr fileStats \<Rightarrow>
                (let toDelete = take 200 (sort_key mtime fileStats)
                 in Inr (unlinkEach (map fname toDelete) dir)))
      else Inr dir)"

text \<open>The second pass works on the listing \<^verbatim>\<open>files\<close> taken before the first; its
  \<^verbatim>\<open>statSync\<close> on a file that the first pass has removed throws, and the \<^verbatim>\<open>catch\<close>
  around the whole function ends the cleanup.\<close>

definition size_pass :: "string list \<Rightarrow> cache \<Rightarrow> error + cache" where
  "size_pass files dir =
     (let total = totalSize files dir
      in if total > MAX_CACHE_SIZE_MB * 1048576
         then (case statAll files dir of Inl e \<Rightarrow> Inl e
               | Inr fileStats \<Rightarrow> Inr (evict (sort_key mtime fileStats) total dir))
         else Inr dir)"

definition cleanupCache :: "cache \<Rightarrow> cache" where
  "cleanupCache dir =
     (let files = map fname dir
      in case count_pass files dir of Inl e \<Rightarrow> dir
         | Inr dir1 \<Rightarrow> (case size_pass files dir1 of Inl e \<Rightarrow> dir1 | Inr dir2 \<Rightarrow> dir2))"

subsection \<open>\<^verbatim>\<open>fetchGameImage\<close>\<close>

text \<open>What \<^verbatim>\<open>fetchGameImage\<close> returns: the file URL of a file of the cache directory
  (\<^verbatim>\<open>pathToFileURL(localPath).href\<close>), named by the file, or the placeholder
  \<^verbatim>\<open>getAssetPath('img/placeholder.png')\<close>.\<close>

datatype image = CacheFile string | Placeholder

text \<open>What one attempt of \<^verbatim>\<open>fetchImageWithRetry\<close> meets at the remote service: the
  search request throws; the search has no result; the grid request throws; the grid
  has no image; the request for the image fails or is not answered with a success; the
  image arrives, with its size in bytes.\<close>

datatype remote = SearchFails | NoResults | GridFails | NoGrid | DownloadFails | Downloaded int

text \<open>The world around one call: the clock, for every attempt what it meets and how
  long it takes in milliseconds, and whether a new file can be created in the cache
  directory (the renderer goes on when it could not create the directory at start).\<close>

record env =
  now :: int
  attempts :: "nat \<Rightarrow> remote"
  latency :: "nat \<Rightarrow> nat"
  can_create :: bool

definition fileName :: "game \<Rightarrow> string" where
  "fileName g = platform_text g @ ''_'' @ template (appid g) @ ''.jpg''"

text \<open>The file that a finished download leaves at its destination.\<close>

definition downloaded_file :: "string \<Rightarrow> int \<Rightarrow> int \<Rightarrow> cfile" where
  "downloaded_file n t bytes =
     \<lparr>fname = n, mtime = t, fsize = bytes, stat_fails = False, utimes_fails = False,
       unlink_fails = False, write_fails = False\<rparr>"

definition write_file :: "string \<Rightarrow> int \<Rightarrow> int \<Rightarrow> cache \<Rightarrow> cache" where
  "write_file n t bytes dir = remove_file n dir @ [downloaded_file n t bytes]"

text \<open>
  \<^verbatim>\<open>downloadImage(url, dest)\<close> first opens \<^verbatim>\<open>fs.createWriteStream(dest)\<close>. The
  stream has no \<^verbatim>\<open>error\<close> listener: when the destination cannot be opened, the
  \<^verbatim>\<open>error\<close> event of the stream is an exception that no \<^verbatim>\<open>try\<close> and no promise
  catches, and the \<^verbatim>\<open>finish\<close> event that would resolve the promise never comes.
\<close>

definition can_open :: "env \<Rightarrow> string \<Rightarrow> cache \<Rightarrow> bool" where
  "can_open e n dir =
     (case lookup_file n dir of None \<Rightarrow> can_create e | Some f \<Rightarrow> \<not> write_fails f)"

text \<open>A promise settles at some time, to a value or to an exception, or stays pending.\<close>

datatype promise = Settled nat "error + image" | Pending

text \<open>
  The loop of \<^verbatim>\<open>fetchImageWithRetry(game, localPath, maxRetries)\<close> from attempt
  \<open>attempt\<close> on, with the time that has passed. A search or a grid without result leaves
  the loop and returns the placeholder; an exception waits one second and tries again,
  and is thrown on when the attempt was the last. \<^verbatim>\<open>downloadImage\<close> unlinks the
  destination when the response is not a success. The result is the promise, the
  directory, and the exceptions that nobody caught.
\<close>

function fetchImageWithRetry ::
  "env \<Rightarrow> string \<Rightarrow> nat \<Rightarrow> nat \<Rightarrow> nat \<Rightarrow> cache \<Rightarrow> promise \<times> cache \<times> error list" where
  "fetchImageWithRetry e file maxRetries attempt elapsed dir =
     (if attempt > maxRetries then (Settled elapsed (Inr Placeholder), dir, [])
      else
        (let t = elapsed + latency e attempt;
             failed = (\<lambda>d uncaught.
                if attempt = maxRetries then (Settled t (Inl FetchError), d, uncaught)
                else (case fetchImageWithRetry e file maxRetries (attempt + 1) (t + 1000) d of
                        (p, d', later) \<Rightarrow> (p, d', uncaught @ later)))
         in case attempts e attempt of
              SearchFails \<Rightarrow> failed dir []
            | NoResults \<Rightarrow> (Settled t (Inr Placeholder), dir, [])
            | GridFails \<Rightarrow> failed dir []
            | NoGrid \<Rightarrow> (Settled t (Inr Placeholder), dir, [])
            | DownloadFails \<Rightarrow>
                if can_open e file dir then failed (remove_file file dir) []
                else failed (unlink_quietly file dir) [FsError]
            | Downloaded bytes \<Rightarrow>
                if can_open e file dir
                then (Settled t (Inr (CacheFile file)), write_file file (now e) bytes dir, [])
                else (Pending, dir, [FsError])))"
  by pat_completeness auto
termination
  by (relation "measure (\<lambda>(e, file, maxRetries, attempt, elapsed, dir). Suc maxRetries - attempt)") auto

declare fetchImageWithRetry.simps [simp del]

text \<open>The cache check at the head of \<^verbatim>\<open>fetchGameImage\<close>: \<open>Inl\<close> is the early return of
  a hit, \<open>Inr\<close> the directory with which the function goes on to fetch. An exception of
  \<^verbatim>\<open>statSync\<close>, \<^verbatim>\<open>utimesSync\<close> or \<^verbatim>\<open>unlinkSync\<close> is caught; the handler tries to
  unlink the file and ignores a failure.\<close>

definition cacheCheck :: "env \<Rightarrow> string \<Rightarrow> cache \<Rightarrow> (image \<times> cache) + cache" where
  "cacheCheck e file dir =
     (case lookup_file file dir of None \<Rightarrow> Inr dir
      | Some f \<Rightarrow>
          (case statSync file dir of Inl err \<Rightarrow> Inr (unlink_quietly file dir)
           | Inr stats \<Rightarrow>
               if fsize stats > 1024
               then (case utimesSync file (now e) dir of
                       Inl err \<Rightarrow> Inr (unlink_quietly file dir)
                     | Inr dir' \<Rightarrow> Inl (CacheFile file, dir'))
               else (case unlinkSync file dir of
                       Inl err \<Rightarrow> Inr (unlink_quietly file dir)
                     | Inr dir' \<Rightarrow> Inr dir')))"

text \<open>\<^verbatim>\<open>Promise.race([fetchImageWithRetry(game, localPath), timeout])\<close>: the timer
  rejects with \<open>Timeout\<close> unless the fetch has settled before it. The fetch is not
  cancelled; the directory is the one it leaves when it has come to rest.\<close>

definition fetchWithTimeout ::
  "env \<Rightarrow> string \<Rightarrow> nat \<Rightarrow> cache \<Rightarrow> (error + image) \<times> cache \<times> error list" where
  "fetchWithTimeout e file timeout dir =
     (case fetchImageWithRetry e file 2 0 0 dir of
        (Pending, dir', uncaught) \<Rightarrow> (Inl Timeout, dir', uncaught)
      | (Settled elapsed result, dir', uncaught) \<Rightarrow>
          (if timeout \<le> elapsed then Inl Timeout else result, dir', uncaught))"

text \<open>The \<^verbatim>\<open>try\<close> around the race in \<^verbatim>\<open>fetchGameImage\<close>: whatever the race rejects
  with, the \<^verbatim>\<open>catch\<close> returns the placeholder.\<close>

definition fetchOrPlaceholder ::
  "env \<Rightarrow> string \<Rightarrow> nat \<Rightarrow> cache \<Rightarrow> (error + image) \<times> cache \<times> error list" where
  "fetchOrPlaceholder e file timeout dir =
     (case fetchWithTimeout e file timeout dir of
        (Inl err, rest) \<Rightarrow> (Inr Placeholder, rest)
      | (Inr img, rest) \<Rightarrow> (Inr img, rest))"

text \<open>\<^verbatim>\<open>fetchGameImage(game, timeout)\<close>: what the call returns (\<open>Inl\<close> would be an
  exception that leaves the function), the cache directory afterwards, and the
  exceptions that were raised outside every \<^verbatim>\<open>try\<close> while it ran.\<close>

definition fetchGameImage ::
  "env \<Rightarrow> cache \<Rightarrow> game \<Rightarrow> nat \<Rightarrow> (error + image) \<times> cache \<times> error list" where
  "fetchGameImage e dir g timeout =
     (let file = fileName g
      in case cacheCheck e file dir of
           Inl (img, dir') \<Rightarrow> (Inr img, dir', [])
         | Inr dir1 \<Rightarrow> fetchOrPlaceholder e file timeout dir1)"

section \<open>Example inputs\<close>

definition foo_steam :: game where
  "foo_steam = \<lparr>name = Some ''Foo'', platform = Some ''steam'', appid = Str ''1''\<rparr>"

definition bar_epic :: game where
  "bar_epic = \<lparr>name = Some ''Bar'', platform = Some ''epic'', appid = Undefined\<rparr>"

definition progress_foo :: progressData where
  "progress_foo =
     \<lparr>percentage = 10, platform_label = ''Steam'', games_found = 1, games = Some [foo_steam]\<rparr>"

text \<open>The states of a scan whose primary executable exits with code 1 and whose first
  Python command then exits with code 0: after the click, after the fallback has been
  launched, and after the scan has ended.\<close>

definition st_click :: app where
  "st_click = initial\<lparr>isScanning := True, refresh_disabled := True,
     spawned := [(0, ''unified_scanner.exe'')], handlers := [(0, Some FallbackToPython)],
     timers := [\<lparr>handle = 1, delay = 180000, action = ScanTimeout 0\<rparr>],
     next_handle := 2, scanTimer := Some 1\<rparr>"

definition st_fallback :: app where
  "st_fallback = st_click\<lparr>
     spawned := [(0, ''unified_scanner.exe''), (1, ''python'')],
     handlers := [(0, Some FallbackToPython), (1, Some (NextPythonCommand 0))],
     commandIndex := [0], exited := [0],
     timers := [\<lparr>handle = 1, delay = 180000, action = ScanTimeout 0\<rparr>,
                \<lparr>handle = 2, delay = 180000, action = ScanTimeout 1\<rparr>],
     next_handle := 3, scanTimer := Some 2\<rparr>"

definition st_stale_fired :: app where
  "st_stale_fired = st_fallback\<lparr>
     timers := [\<lparr>handle = 3, delay = 1000, action = ResetScanUI\<rparr>],
     next_handle := 4, scanTimer := None, killed := [0]\<rparr>"

definition st_done :: app where
  "st_done = st_fallback\<lparr>
     timers := [\<lparr>handle = 1, delay = 180000, action = ScanTimeout 0\<rparr>,
                \<lparr>handle = 3, delay = 150, action = Render False\<rparr>,
                \<lparr>handle = 4, delay = 1000, action = ResetScanUI\<rparr>],
     next_handle := 5, scanTimer := None, sortAndRenderTimer := Some 3, exited := [0, 1]\<rparr>"

text \<open>The states of a scan whose fallback is still running when the timer of the
  primary executable fires: after the fallback has reported \<open>Foo\<close>, after the stale
  timer has fired, after the interface has been reset, and after the next click.\<close>

definition st_found :: app where
  "st_found = st_fallback\<lparr>allGames := [foo_steam]\<rparr>"

definition st_found_stale :: app where
  "st_found_stale = st_found\<lparr>
     timers := [\<lparr>handle = 3, delay = 1000, action = ResetScanUI\<rparr>],
     next_handle := 4, scanTimer := None, killed := [0]\<rparr>"

definition st_reset :: app where
  "st_reset = st_found_stale\<lparr>isScanning := False, refresh_disabled := False, timers := []\<rparr>"

definition st_second :: app where
  "st_second = st_reset\<lparr>allGames := [], isScanning := True, refresh_disabled := True,
     spawned := [(0, ''unified_scanner.exe''), (1, ''python''), (2, ''unified_scanner.exe'')],
     handlers := [(0, Some FallbackToPython), (1, Some (NextPythonCommand 0)),
                  (2, Some FallbackToPython)],
     timers := [\<lparr>handle = 4, delay = 180000, action = ScanTimeout 2\<rparr>],
     next_handle := 5, scanTimer := Some 4\<rparr>"

definition witcher :: game where
  "witcher = \<lparr>name = Some ''The Witcher'', platform = Some ''gog'', appid = Str ''w''\<rparr>"

definition quiet_place :: game where
  "quiet_place = \<lparr>name = Some ''A Quiet Place'', platform = Some ''steam'', appid = Str ''q''\<rparr>"

definition zelda :: game where
  "zelda = \<lparr>name = Some ''Zelda'', platform = Some ''epic'', appid = Str ''z''\<rparr>"

definition the_alpha :: game where
  "the_alpha = \<lparr>name = Some ''The Alpha'', platform = Some ''steam'', appid = Str ''a''\<rparr>"

definition beta :: game where
  "beta = \<lparr>name = Some ''Beta'', platform = Some ''steam'', appid = Str ''b''\<rparr>"

text \<open>A name with the registered sign between its letters.\<close>

definition az_registered :: game where
  "az_registered =
     \<lparr>name = Some (''A'' @ [CHR 0xAE] @ ''z''), platform = Some ''steam'', appid = Str ''r''\<rparr>"

definition ab :: game where
  "ab = \<lparr>name = Some ''Ab'', platform = Some ''steam'', appid = Str ''c''\<rparr>"

definition env_fail :: env where
  "env_fail = \<lparr>now = 1000, attempts = (\<lambda>k. SearchFails), latency = (\<lambda>k. 100),
     can_create = True\<rparr>"

definition env_retry :: env where
  "env_retry = \<lparr>now = 1000, attempts = (\<lambda>k. if k = 0 then GridFails else Downloaded 50000),
     latency = (\<lambda>k. 200), can_create = True\<rparr>"

definition env_unwritable :: env where
  "env_unwritable = \<lparr>now = 1000, attempts = (\<lambda>k. Downloaded 50000), latency = (\<lambda>k. 200),
     can_create = False\<rparr>"

definition env_download :: env where
  "env_download = \<lparr>now = 1000, attempts = (\<lambda>k. Downloaded 50000), latency = (\<lambda>k. 200),
     can_create = True\<rparr>"

definition locked_file :: cfile where
  "locked_file = \<lparr>fname = ''steam_1.jpg'', mtime = 5, fsize = 100, stat_fails = False,
     utimes_fails = True, unlink_fails = True, write_fails = True\<rparr>"

definition small_file :: cfile where
  "small_file = \<lparr>fname = ''steam_1.jpg'', mtime = 5, fsize = 1024, stat_fails = False,
     utimes_fails = False, unlink_fails = False, write_fails = False\<rparr>"

definition big_file :: cfile where
  "big_file = \<lparr>fname = ''steam_1.jpg'', mtime = 5, fsize = 1025, stat_fails = False,
     utimes_fails = False, unlink_fails = False, write_fails = False\<rparr>"

definition epic_cover :: cfile where
  "epic_cover = \<lparr>fname = ''epic_undefined.jpg'', mtime = 7, fsize = 4096, stat_fails = False,
     utimes_fails = False, unlink_fails = False, write_fails = False\<rparr>"

definition baz_epic :: game where
  "baz_epic = \<lparr>name = Some ''Baz'', platform = Some ''epic'', appid = Undefined\<rparr>"



definition heavy_cache :: cache where
  "heavy_cache =
     [\<lparr>fname = ''steam_1.jpg'', mtime = 20, fsize = 300 * 1048576, stat_fails = False,
        utimes_fails = False, unlink_fails = False, write_fails = False\<rparr>,
      \<lparr>fname = ''epic_undefined.jpg'', mtime = 10, fsize = 300 * 1048576, stat_fails = False,
        utimes_fails = False, unlink_fails = False, write_fails = False\<rparr>]"

section \<open>Invariants\<close>

text \<open>\<^verbatim>\<open>setScanningUI\<close> is the only writer of \<^verbatim>\<open>isScanning\<close> and of the
  \<^verbatim>\<open>disabled\<close> attribute of the refresh button, and it writes the same value to both.\<close>

definition ui_consistent :: "app \<Rightarrow> bool" where
  "ui_consistent s = (refresh_disabled s = isScanning s)"

text \<open>The child processes that have been spawned and have neither closed nor been
  killed.\<close>

definition running :: "app \<Rightarrow> nat list" where
  "running s = filter (\<lambda>p. p \<notin> set (exited s) \<and> p \<notin> set (killed s)) (map fst (spawned s))"




section \<open>Evaluation of the example inputs\<close>

lemmas string_defs =
  toLowerCase_def toLowerChar_def upper_letters_def lower_letters_def latin1_upper_def
  latin1_lower_def trim_def is_space_def

lemma normalizeGame_foo_steam [simp]: "normalizeGame foo_steam = foo_steam"
  by (simp add: normalizeGame_def foo_steam_def normalizePlatform_def PLATFORM_ALIASES_def string_defs)

lemma normalizeGame_bar_epic [simp]: "normalizeGame bar_epic = bar_epic"
  by (simp add: normalizeGame_def bar_epic_def normalizePlatform_def PLATFORM_ALIASES_def string_defs)

lemma nameKey_foo_steam [simp]: "nameKey foo_steam = Inr ''foo_steam''"
  by (simp add: nameKey_def foo_steam_def platform_text_def string_defs)

lemma nameKey_bar_epic [simp]: "nameKey bar_epic = Inr ''bar_epic''"
  by (simp add: nameKey_def bar_epic_def platform_text_def string_defs)

lemma appid_examples [simp]: "appid foo_steam = Str ''1''" "appid bar_epic = Undefined"
  by (simp_all add: foo_steam_def bar_epic_def)

lemma initial_fields [simp]:
  "allGames initial = []" "has_container initial" "\<not> isScanning initial"
  "\<not> refresh_disabled initial" "timers initial = []" "scanTimer initial = None"
  "exe_exists initial" "script_exists initial" "fetched initial = []"
  "handlers initial = []" "spawned initial = []" "next_handle initial = 1"
  by (simp_all add: initial_def)

section \<open>The merge engine\<close>

lemma nameKeys_Inr_iff:
  "(\<exists>ks. nameKeys gs = Inr ks) \<longleftrightarrow> (\<forall>g\<in>set gs. \<exists>k. nameKey g = Inr k)"
  by (induction gs) (auto split: sum.splits)

lemma nameKeys_set:
  "nameKeys gs = Inr ks \<Longrightarrow> nameKey g = Inr k \<Longrightarrow> g \<in> set gs \<Longrightarrow> k \<in> set ks"
  by (induction gs arbitrary: ks) (auto split: sum.splits)

lemma nameKeys_append:
  "nameKeys xs = Inr kx \<Longrightarrow> nameKeys ys = Inr ky \<Longrightarrow> nameKeys (xs @ ys) = Inr (kx @ ky)"
  by (induction xs arbitrary: kx) (auto split: sum.splits)

lemma uniqueGames_named:
  "uniqueGames ids names gs = Inr us \<Longrightarrow> g \<in> set gs \<Longrightarrow> \<exists>k. nameKey g = Inr k"
  by (induction gs arbitrary: us) (auto simp: Let_def split: sum.splits if_splits)

lemma uniqueGames_subset:
  "uniqueGames ids names gs = Inr us \<Longrightarrow> set us \<subseteq> set gs"
  by (induction gs arbitrary: us) (auto simp: Let_def split: sum.splits if_splits)

lemma uniqueGames_rejected:
  "uniqueGames ids names gs = Inr us \<Longrightarrow> g \<in> set gs \<Longrightarrow> g \<notin> set us \<Longrightarrow>
     (truthy (appid g) \<and> appid g \<in> set ids) \<or> (\<exists>k. nameKey g = Inr k \<and> k \<in> set names)"
  by (induction gs arbitrary: us) (auto simp: Let_def split: sum.splits if_splits)

lemma uniqueGames_all_duplicates:
  "\<forall>g\<in>set gs. (\<exists>k. nameKey g = Inr k) \<and>
       ((truthy (appid g) \<and> appid g \<in> set ids) \<or> (\<exists>k. nameKey g = Inr k \<and> k \<in> set names))
   \<Longrightarrow> uniqueGames ids names gs = Inr []"
  by (induction gs) (auto simp: Let_def split: sum.splits)

text \<open>A call that returned normally has made every entry of its batch a duplicate: the
  entries it appended by their own name keys, the entries it rejected by the keys
  that rejected them.\<close>

lemma appendNewGames_twice:
  assumes "appendNewGames s batch = Inr s1"
  shows "appendNewGames s1 batch = Inr s1"
proof (cases "batch = [] \<or> \<not> has_container s")
  case True
  with assms show ?thesis by (auto simp: appendNewGames_def)
next
  case False
  then have ne: "batch \<noteq> []" and hc: "has_container s" by auto
  from assms ne hc obtain names where names: "nameKeys (allGames s) = Inr names"
    by (auto simp: appendNewGames_def Let_def split: sum.splits)
  from assms ne hc names obtain us where
    us: "uniqueGames (map appid (allGames s)) names (map normalizeGame batch) = Inr us"
    by (auto simp: appendNewGames_def Let_def split: sum.splits)
  have s1: "allGames s1 = allGames s @ us" "has_container s1"
    using assms ne hc names us by (auto simp: appendNewGames_def Let_def split: if_splits)
  have "\<forall>g\<in>set us. \<exists>k. nameKey g = Inr k"
    using uniqueGames_named [OF us] uniqueGames_subset [OF us] by blast
  then obtain ku where ku: "nameKeys us = Inr ku"
    using nameKeys_Inr_iff [of us] by blast
  have names1: "nameKeys (allGames s1) = Inr (names @ ku)"
    using nameKeys_append [OF names ku] s1 by simp
  have "uniqueGames (map appid (allGames s1)) (names @ ku) (map normalizeGame batch) = Inr []"
  proof (rule uniqueGames_all_duplicates, intro ballI conjI)
    fix g assume g: "g \<in> set (map normalizeGame batch)"
    show "\<exists>k. nameKey g = Inr k" using uniqueGames_named [OF us g] .
    then obtain k where k: "nameKey g = Inr k" ..
    show "(truthy (appid g) \<and> appid g \<in> set (map appid (allGames s1))) \<or>
          (\<exists>k. nameKey g = Inr k \<and> k \<in> set (names @ ku))"
    proof (cases "g \<in> set us")
      case True
      then have "k \<in> set ku" using nameKeys_set [OF ku k] by simp
      with k show ?thesis by auto
    next
      case False
      from uniqueGames_rejected [OF us g False] s1 show ?thesis by auto
    qed
  qed
  with names1 ne s1 show ?thesis
    by (simp add: appendNewGames_def Let_def)
qed

text \<open>
  Claim C1, at the input that breaks it. The claim says that of two catalog entries with
  the same identity, or the same lower-cased name and platform, at most one survives a
  merge, and that one batch holding two copies of a record that is not yet in the
  collection appends one of them. \<^verbatim>\<open>appendNewGames\<close> tests every candidate against
  the sets it built before the filter, so on the empty collection the batch of two equal
  records \<open>Foo\<close> (steam, appid \<^verbatim>\<open>"1"\<close>) appends both.
\<close>

theorem appendNewGames_keeps_batch_internal_duplicates:
  "appendNewGames initial [foo_steam, foo_steam]
     = Inr (initial\<lparr>allGames := [foo_steam, foo_steam]\<rparr>)"
  by (simp add: appendNewGames_def)

text \<open>
  Claim C4: merging a batch a second time appends nothing. For every state and every
  batch, the state after two merges of the batch is the state after one; and when the
  first call of \<^verbatim>\<open>appendNewGames\<close> returned normally (as it does when every entry has
  a name), the second call returns normally and changes nothing, so the collection
  keeps its entries and their order of first arrival. A call that throws because a
  name is missing appends nothing either.
\<close>

theorem merge_idempotent:
  "merge (merge s batch) batch = merge s batch \<and>
   (\<forall>s1. appendNewGames s batch = Inr s1 \<longrightarrow> appendNewGames s1 batch = Inr s1)"
proof (cases "appendNewGames s batch")
  case (Inl e)
  then show ?thesis by (simp add: merge_def)
next
  case (Inr s1)
  then show ?thesis using appendNewGames_twice [OF Inr] by (simp add: merge_def)
qed

theorem merge_idempotent_witness:
  "appendNewGames initial [foo_steam, bar_epic, foo_steam]
     = Inr (initial\<lparr>allGames := [foo_steam, bar_epic, foo_steam]\<rparr>) \<and>
   appendNewGames (initial\<lparr>allGames := [foo_steam, bar_epic, foo_steam]\<rparr>)
       [foo_steam, bar_epic, foo_steam]
     = Inr (initial\<lparr>allGames := [foo_steam, bar_epic, foo_steam]\<rparr>)"
proof -
  have first: "appendNewGames initial [foo_steam, bar_epic, foo_steam]
     = Inr (initial\<lparr>allGames := [foo_steam, bar_epic, foo_steam]\<rparr>)"
    by (simp add: appendNewGames_def)
  with merge_idempotent [of initial "[foo_steam, bar_epic, foo_steam]"]
  show ?thesis by simp
qed

section \<open>The scan supervisor\<close>

subsection \<open>What each operation leaves alone\<close>

lemma merge_fields:
  "fetched (merge s b) = fetched s" "isScanning (merge s b) = isScanning s"
  "refresh_disabled (merge s b) = refresh_disabled s" "timers (merge s b) = timers s"
  "scanTimer (merge s b) = scanTimer s"
  by (auto simp: merge_def appendNewGames_def Let_def split: sum.splits if_splits)

lemma endScan_fields:
  "fetched (endScan s) = fetched s" "isScanning (endScan s) = isScanning s"
  "refresh_disabled (endScan s) = refresh_disabled s" "allGames (endScan s) = allGames s"
  by (auto simp: endScan_def setTimeout_def clearTimeout_def Let_def split: option.splits)

lemma sortAndRender_fields:
  "fetched (sortAndRender b s) = fetched s" "isScanning (sortAndRender b s) = isScanning s"
  "refresh_disabled (sortAndRender b s) = refresh_disabled s" "allGames (sortAndRender b s) = allGames s"
  by (auto simp: sortAndRender_def setTimeout_def clearTimeout_def Let_def split: option.splits)

lemma setupProcessHandlers_fields:
  "fetched (setupProcessHandlers p cb s) = fetched s" "isScanning (setupProcessHandlers p cb s) = isScanning s"
  "refresh_disabled (setupProcessHandlers p cb s) = refresh_disabled s" "allGames (setupProcessHandlers p cb s) = allGames s"
  by (auto simp: setupProcessHandlers_def setTimeout_def Let_def)

lemma tryNextPythonCommand_fields:
  "fetched (tryNextPythonCommand k s) = fetched s" "isScanning (tryNextPythonCommand k s) = isScanning s"
  "refresh_disabled (tryNextPythonCommand k s) = refresh_disabled s" "allGames (tryNextPythonCommand k s) = allGames s"
  by (auto simp: tryNextPythonCommand_def startScanProcess_def endScan_fields setupProcessHandlers_fields Let_def)

lemma tryPythonFallback_fields:
  "fetched (tryPythonFallback s) = fetched s" "isScanning (tryPythonFallback s) = isScanning s"
  "refresh_disabled (tryPythonFallback s) = refresh_disabled s" "allGames (tryPythonFallback s) = allGames s"
  by (auto simp: tryPythonFallback_def endScan_fields tryNextPythonCommand_fields)

lemma run_callback_fields:
  "fetched (run_callback c s) = fetched s" "isScanning (run_callback c s) = isScanning s"
  "refresh_disabled (run_callback c s) = refresh_disabled s" "allGames (run_callback c s) = allGames s"
  by (cases c; auto simp: tryPythonFallback_fields tryNextPythonCommand_fields)+

lemma on_close_fields:
  "fetched (on_close p code s) = fetched s" "isScanning (on_close p code s) = isScanning s"
  "refresh_disabled (on_close p code s) = refresh_disabled s" "allGames (on_close p code s) = allGames s"
  by (auto simp: on_close_def Let_def endScan_fields sortAndRender_fields run_callback_fields
           split: option.splits)

lemma on_error_fields:
  "fetched (on_error p s) = fetched s" "isScanning (on_error p s) = isScanning s"
  "refresh_disabled (on_error p s) = refresh_disabled s" "allGames (on_error p s) = allGames s"
  by (auto simp: on_error_def endScan_fields run_callback_fields split: option.splits)

lemma on_progress_fields:
  "fetched (on_progress p d s) = fetched s" "isScanning (on_progress p d s) = isScanning s"
  "refresh_disabled (on_progress p d s) = refresh_disabled s"
  by (auto simp: on_progress_def merge_fields split: option.splits)

lemma render_fields:
  "render b s = Inr s' \<Longrightarrow> isScanning s' = isScanning s \<and> refresh_disabled s' = refresh_disabled s \<and> allGames s' = allGames s"
  by (auto simp: render_def renderGames_def renderGamesWithProgress_def Let_def split: sum.splits if_splits)

lemma fire_consistent: "ui_consistent s \<Longrightarrow> ui_consistent (fire h s)"
  by (auto simp: ui_consistent_def fire_def Let_def clearTimeout_def endScan_fields setScanningUI_def
      dest!: render_fields split: option.splits timer_action.splits sum.splits)

lemma click_consistent: "ui_consistent s \<Longrightarrow> ui_consistent (click_refresh s)"
  by (auto simp: ui_consistent_def click_refresh_def refresh_onclick_def Let_def setScanningUI_def
      startScanProcess_def setupProcessHandlers_fields tryPythonFallback_fields)

lemma step_consistent:
  assumes "ui_consistent s"
  shows "ui_consistent (step s e)"
proof (cases e)
  case Click
  with assms show ?thesis by (simp add: click_consistent)
next
  case (Progress p d)
  with assms show ?thesis by (simp add: ui_consistent_def on_progress_fields)
next
  case (Close p code)
  with assms show ?thesis by (simp add: ui_consistent_def on_close_fields)
next
  case (ProcError p)
  with assms show ?thesis by (simp add: ui_consistent_def on_error_fields)
next
  case (Fire h)
  with assms show ?thesis by (simp add: fire_consistent)
qed

lemma run_consistent: "ui_consistent s \<Longrightarrow> ui_consistent (run evs s)"
  unfolding run_def by (induction evs arbitrary: s) (auto simp: step_consistent)

lemma click_fetched: "fetched (click_refresh s) = fetched s"
  by (simp add: click_refresh_def refresh_onclick_def Let_def
       startScanProcess_def setupProcessHandlers_fields tryPythonFallback_fields setScanningUI_def)

lemma fire_fetched:
  assumes "fetched (fire h s) \<noteq> fetched s"
  shows "\<exists>t b. t \<in> set (timers s) \<and> handle t = h \<and> action t = Render b"
proof (cases "find (\<lambda>t. handle t = h) (timers s)")
  case None
  with assms show ?thesis by (simp add: fire_def)
next
  case (Some t)
  then have t: "t \<in> set (timers s)" "handle t = h"
    by (auto simp: find_Some_iff)
  show ?thesis
  proof (cases "action t")
    case (ScanTimeout p)
    with assms Some show ?thesis
      by (simp add: fire_def Let_def endScan_fields clearTimeout_def)
  next
    case ResetScanUI
    with assms Some show ?thesis
      by (simp add: fire_def Let_def setScanningUI_def clearTimeout_def)
  next
    case (Render b)
    with t show ?thesis by blast
  qed
qed

lemma step_fetched:
  assumes "fetched (step s e) \<noteq> fetched s"
  shows "\<exists>h t b. e = Fire h \<and> t \<in> set (timers s) \<and> handle t = h \<and> action t = Render b"
proof (cases e)
  case Click
  with assms show ?thesis by (simp add: click_fetched)
next
  case (Progress p d)
  with assms show ?thesis by (simp add: on_progress_fields)
next
  case (Close p code)
  with assms show ?thesis by (simp add: on_close_fields)
next
  case (ProcError p)
  with assms show ?thesis by (simp add: on_error_fields)
next
  case (Fire h)
  with assms fire_fetched [of h s] show ?thesis by auto
qed


subsection \<open>A scan that falls back to Python\<close>

lemma click_initial: "click_refresh initial = st_click"
  by (simp add: st_click_def initial_def click_refresh_def refresh_onclick_def setScanningUI_def
      startScanProcess_def setupProcessHandlers_def setTimeout_def)

lemma close_exe_failed: "on_close 0 (Some 1) st_click = st_fallback"
  by (simp add: st_fallback_def st_click_def initial_def on_close_def tryPythonFallback_def
      tryNextPythonCommand_def pythonCommands_def startScanProcess_def setupProcessHandlers_def
      setTimeout_def)

lemma close_python_ok: "on_close 1 (Some 0) st_fallback = st_done"
  by (simp add: st_done_def st_fallback_def st_click_def initial_def on_close_def endScan_def
      sortAndRender_def clearTimeout_def setTimeout_def)

lemma fire_stale_timer: "fire 1 st_fallback = st_stale_fired"
  by (simp add: st_stale_fired_def st_fallback_def st_click_def initial_def fire_def endScan_def
      clearTimeout_def setTimeout_def)

lemma progress_click: "on_progress 0 progress_foo st_click = st_click\<lparr>allGames := [foo_steam]\<rparr>"
  by (simp add: on_progress_def progress_foo_def st_click_def merge_def appendNewGames_def)

lemma run_fallback: "run [Click, Close 0 (Some 1)] initial = st_fallback"
  by (simp only: run_def foldl.simps step.simps click_initial close_exe_failed)

lemma run_done: "run [Click, Close 0 (Some 1), Close 1 (Some 0)] initial = st_done"
  by (simp only: run_def foldl.simps step.simps click_initial close_exe_failed close_python_ok)

lemma run_stale_fired: "run [Click, Close 0 (Some 1), Fire 1] initial = st_stale_fired"
  by (simp only: run_def foldl.simps step.simps click_initial close_exe_failed fire_stale_timer)

lemma progress_fallback: "on_progress 1 progress_foo st_fallback = st_found"
  by (simp add: on_progress_def progress_foo_def st_found_def st_fallback_def st_click_def merge_def
      appendNewGames_def)

lemma fire_stale_found: "fire 1 st_found = st_found_stale"
  by (simp add: st_found_stale_def st_found_def st_fallback_def st_click_def initial_def fire_def
      endScan_def clearTimeout_def setTimeout_def)

lemma fire_reset: "fire 3 st_found_stale = st_reset"
  by (simp add: st_reset_def st_found_stale_def st_found_def st_fallback_def st_click_def
      initial_def fire_def clearTimeout_def setScanningUI_def)

lemma click_reset: "click_refresh st_reset = st_second"
  by (simp add: st_second_def st_reset_def st_found_stale_def st_found_def st_fallback_def
      st_click_def initial_def click_refresh_def refresh_onclick_def setScanningUI_def
      startScanProcess_def setupProcessHandlers_def setTimeout_def)

lemma progress_second: "on_progress 1 progress_foo st_second = st_second\<lparr>allGames := [foo_steam]\<rparr>"
  by (simp add: on_progress_def progress_foo_def st_second_def merge_def appendNewGames_def
      st_reset_def st_found_stale_def st_found_def st_fallback_def st_click_def)

lemma run_reset:
  "run [Click, Close 0 (Some 1), Progress 1 progress_foo, Fire 1, Fire 3] initial = st_reset"
  by (simp only: run_def foldl.simps step.simps click_initial close_exe_failed progress_fallback
      fire_stale_found fire_reset)

lemma run_second:
  "run [Click, Close 0 (Some 1), Progress 1 progress_foo, Fire 1, Fire 3, Click] initial = st_second"
  by (simp only: run_def foldl.simps step.simps click_initial close_exe_failed progress_fallback
      fire_stale_found fire_reset click_reset)

lemma run_second_progress:
  "run [Click, Close 0 (Some 1), Progress 1 progress_foo, Fire 1, Fire 3, Click,
        Progress 1 progress_foo] initial = st_second\<lparr>allGames := [foo_steam]\<rparr>"
  by (simp only: run_def foldl.simps step.simps click_initial close_exe_failed progress_fallback
      fire_stale_found fire_reset click_reset progress_second)

lemma run_progress: "run [Click, Progress 0 progress_foo] initial = st_click\<lparr>allGames := [foo_steam]\<rparr>"
  by (simp only: run_def foldl.simps step.simps click_initial progress_click)

text \<open>
  Claim C3, at the input that breaks it. The claim says that one timer of 180 seconds
  governs the whole fallback chain, that it is disarmed on every terminal transition,
  and that no timer armed for an earlier candidate is still active when a fallback
  candidate runs. In the source every call of \<^verbatim>\<open>setupProcessHandlers\<close> arms a new
  timer and overwrites \<^verbatim>\<open>scanTimer\<close> without clearing the handle it held. After a
  click and the exit of the primary executable with code 1, two timers of 180000 ms are
  pending, the first still aimed at the process that has exited; \<^verbatim>\<open>scanTimer\<close> holds
  the second only. When the Python fallback then exits with code 0, \<^verbatim>\<open>endScan\<close>
  disarms the second timer and the first stays armed after the scan has ended. When
  instead the first timer fires while the fallback runs, it kills the process that has
  already exited, and its \<^verbatim>\<open>endScan\<close> disarms the timer of the running fallback and
  schedules the reset of the interface.
\<close>

theorem stale_timer_after_fallback:
  "timers (run [Click, Close 0 (Some 1)] initial) =
     [\<lparr>handle = 1, delay = 180000, action = ScanTimeout 0\<rparr>,
      \<lparr>handle = 2, delay = 180000, action = ScanTimeout 1\<rparr>] \<and>
   scanTimer (run [Click, Close 0 (Some 1)] initial) = Some 2 \<and>
   timers (run [Click, Close 0 (Some 1), Close 1 (Some 0)] initial) =
     [\<lparr>handle = 1, delay = 180000, action = ScanTimeout 0\<rparr>,
      \<lparr>handle = 3, delay = 150, action = Render False\<rparr>,
      \<lparr>handle = 4, delay = 1000, action = ResetScanUI\<rparr>] \<and>
   scanTimer (run [Click, Close 0 (Some 1), Close 1 (Some 0)] initial) = None \<and>
   killed (run [Click, Close 0 (Some 1), Fire 1] initial) = [0] \<and>
   timers (run [Click, Close 0 (Some 1), Fire 1] initial) =
     [\<lparr>handle = 3, delay = 1000, action = ResetScanUI\<rparr>]"
  unfolding run_fallback run_done run_stale_fired
  by (simp add: st_done_def st_fallback_def st_stale_fired_def)

text \<open>
  Claim C6 as stated fails: the claim says that for a progress unit with a batch the
  supervisor requests an image warm-up for the newly accepted entries during the scan.
  After a click and one progress unit carrying \<open>Foo\<close>, the entry has been accepted
  and no call of \<^verbatim>\<open>fetchGameImage\<close> has been made.
\<close>

theorem no_warmup_during_scan_counterexample:
  "allGames (run [Click, Progress 0 progress_foo] initial) = [foo_steam] \<and>
   fetched (run [Click, Progress 0 progress_foo] initial) = []"
  unfolding run_progress by (simp add: st_click_def)

text \<open>
  Claim C6 as amended: for every progress unit whose batch is present and not empty, the
  \<^verbatim>\<open>stdout\<close> handler of a supervised process hands the batch to \<^verbatim>\<open>appendNewGames\<close>
  and requests no image; of all the events of a scan only the firing of the debounced
  timer of \<^verbatim>\<open>sortAndRender\<close> (the render pass, which the \<^verbatim>\<open>close\<close> handler starts
  after exit code 0) calls \<^verbatim>\<open>fetchGameImage\<close>.
\<close>

theorem progress_merges_without_fetch:
  "fetched (on_progress p d s) = fetched s \<and>
   (\<forall>cb gs. map_of (handlers s) p = Some cb \<and> games d = Some gs \<and> gs \<noteq> []
       \<longrightarrow> on_progress p d s = merge s gs) \<and>
   (\<forall>e. fetched (step s e) \<noteq> fetched s
       \<longrightarrow> (\<exists>h t b. e = Fire h \<and> t \<in> set (timers s) \<and> handle t = h \<and> action t = Render b))"
proof (intro conjI allI impI)
  show "fetched (on_progress p d s) = fetched s"
    by (rule on_progress_fields)
next
  fix cb gs
  assume "map_of (handlers s) p = Some cb \<and> games d = Some gs \<and> gs \<noteq> []"
  then show "on_progress p d s = merge s gs"
    by (simp add: on_progress_def)
next
  fix e
  assume "fetched (step s e) \<noteq> fetched s"
  then show "\<exists>h t b. e = Fire h \<and> t \<in> set (timers s) \<and> handle t = h \<and> action t = Render b"
    by (rule step_fetched)
qed

theorem progress_merges_without_fetch_witness:
  "map_of (handlers st_click) 0 = Some (Some FallbackToPython) \<and>
   games progress_foo = Some [foo_steam] \<and>
   fetched (on_progress 0 progress_foo st_click) = fetched st_click \<and>
   on_progress 0 progress_foo st_click = merge st_click [foo_steam]"
proof -
  have h: "map_of (handlers st_click) 0 = Some (Some FallbackToPython)"
    by (simp add: st_click_def)
  have g: "games progress_foo = Some [foo_steam]"
    by (simp add: progress_foo_def)
  note inst = progress_merges_without_fetch [of 0 progress_foo st_click]
  from inst have "fetched (on_progress 0 progress_foo st_click) = fetched st_click"
    by (rule conjunct1)
  moreover from inst h g have "on_progress 0 progress_foo st_click = merge st_click [foo_steam]"
    by blast
  ultimately show ?thesis using h g by blast
qed

text \<open>While \<^verbatim>\<open>isScanning\<close> is set (from the click until one second after
  \<^verbatim>\<open>endScan\<close>) the refresh button is disabled, so a click of the user does not reach
  the handler and leaves the whole state, session and catalog, as it is. This holds
  after every sequence of events, from every state in which the button and the flag
  agree, as they do when the page has loaded.\<close>

lemma click_ignored_while_scanning:
  "refresh_disabled s0 = isScanning s0 \<Longrightarrow> isScanning (run evs s0)
     \<Longrightarrow> step (run evs s0) Click = run evs s0"
  using run_consistent [of s0 evs] by (simp add: ui_consistent_def click_refresh_def)

text \<open>
  Claim C8, at the input that breaks it. The claim says that at most one scan session is
  active at a time: a launch request made while a session is launching or running is
  rejected and changes neither the session nor the catalog. The renderer rejects a
  click by disabling the button while \<^verbatim>\<open>isScanning\<close> is set, but the flag can be reset
  while a child process still runs. The primary executable exits with code 1 and the
  Python fallback starts and reports \<open>Foo\<close>; the timer that was armed for the
  executable and never disarmed fires; its \<^verbatim>\<open>endScan\<close> resets the interface one
  second later. The fallback process has neither closed nor been killed, the button is
  enabled, and the next click empties the catalog and spawns another scanner: two
  scanners run, and a progress line of the old one is merged into the catalog of the new
  scan.
\<close>

theorem second_scan_starts_while_fallback_runs:
  "running (run [Click, Close 0 (Some 1), Progress 1 progress_foo, Fire 1, Fire 3] initial) = [1] \<and>
   \<not> refresh_disabled
      (run [Click, Close 0 (Some 1), Progress 1 progress_foo, Fire 1, Fire 3] initial) \<and>
   allGames (run [Click, Close 0 (Some 1), Progress 1 progress_foo, Fire 1, Fire 3] initial)
     = [foo_steam] \<and>
   allGames (run [Click, Close 0 (Some 1), Progress 1 progress_foo, Fire 1, Fire 3, Click] initial)
     = [] \<and>
   spawned (run [Click, Close 0 (Some 1), Progress 1 progress_foo, Fire 1, Fire 3, Click] initial)
     = [(0, ''unified_scanner.exe''), (1, ''python''), (2, ''unified_scanner.exe'')] \<and>
   running (run [Click, Close 0 (Some 1), Progress 1 progress_foo, Fire 1, Fire 3, Click] initial)
     = [1, 2] \<and>
   allGames (run [Click, Close 0 (Some 1), Progress 1 progress_foo, Fire 1, Fire 3, Click,
                  Progress 1 progress_foo] initial) = [foo_steam]"
  unfolding run_reset run_second run_second_progress
  by (simp add: running_def st_second_def st_reset_def st_found_stale_def st_found_def
      st_fallback_def st_click_def)

section \<open>The render comparator\<close>

lemmas sort_defs =
  getSortName_def articles_def string_defs is_digit_def digit_value_def letter_index_def
  base_letter_def accented_def localeCompare_def

lemma getSortName_examples:
  "getSortName ''The Witcher'' = ''Witcher''"
  "getSortName ''A Quiet Place'' = ''Quiet Place''"
  "getSortName ''Zelda'' = ''Zelda''"
  by (simp_all add: sort_defs)

lemma sortName_examples [simp]:
  "getSortName (name_text witcher) = ''Witcher''"
  "getSortName (name_text quiet_place) = ''Quiet Place''"
  "getSortName (name_text zelda) = ''Zelda''"
  by (simp_all add: name_text_def witcher_def quiet_place_def zelda_def getSortName_examples)

lemma localeCompare_examples [simp]:
  "localeCompare ''Quiet Place'' ''Witcher'' = -1"
  "localeCompare ''Witcher'' ''Quiet Place'' = 1"
  "localeCompare ''Quiet Place'' ''Zelda'' = -1"
  "localeCompare ''Zelda'' ''Quiet Place'' = 1"
  "localeCompare ''Witcher'' ''Zelda'' = -1"
  "localeCompare ''Zelda'' ''Witcher'' = 1"
  by (simp_all add: sort_defs)

lemma sortName_more_examples [simp]:
  "getSortName (name_text the_alpha) = ''Alpha''"
  "getSortName (name_text beta) = ''Beta''"
  "getSortName (name_text az_registered) = ''Az''"
  "getSortName (name_text ab) = ''Ab''"
  by (simp_all add: name_text_def the_alpha_def beta_def az_registered_def ab_def sort_defs)

lemma localeCompare_more_examples [simp]:
  "localeCompare ''Alpha'' ''Beta'' = -1"
  "localeCompare ''Beta'' ''Alpha'' = 1"
  "localeCompare ''Az'' ''Ab'' = 1"
  "localeCompare ''Ab'' ''Az'' = -1"
  by (simp_all add: sort_defs)

subsection \<open>What \<^verbatim>\<open>getSortName\<close> removes\<close>

lemma space_lower: "is_space c \<Longrightarrow> toLowerChar c = c"
  unfolding is_space_def by (elim disjE | simp add: string_defs)+

lemma not_space_if_lower: "toLowerChar c = l \<Longrightarrow> \<not> is_space l \<Longrightarrow> \<not> is_space c"
  using space_lower by metis

lemma article_letters_not_space:
  "\<not> is_space (CHR 0x27)"
  "\<not> is_space (CHR ''a'')"
  "\<not> is_space (CHR ''d'')"
  "\<not> is_space (CHR ''e'')"
  "\<not> is_space (CHR ''h'')"
  "\<not> is_space (CHR ''l'')"
  "\<not> is_space (CHR ''n'')"
  "\<not> is_space (CHR ''s'')"
  "\<not> is_space (CHR ''t'')"
  "\<not> is_space (CHR ''u'')"
  by (simp_all add: is_space_def)

lemma articles_cases:
  "a \<in> set articles \<Longrightarrow>
     a = ''the'' \<or> a = ''a'' \<or> a = ''an'' \<or> a = ''le'' \<or>
     a = ''la'' \<or> a = ''les'' \<or> a = [CHR ''l'', CHR 0x27] \<or> a = ''un'' \<or> a = ''une'' \<or> a = ''des''"
  by (simp add: articles_def)

lemma strip_the:
  assumes "toLowerChar x = CHR ''t''" "toLowerChar y = CHR ''h''" "toLowerChar z = CHR ''e''"
    "is_space w"
  shows "strip_article articles ([x, y, z] @ w # n) = dropWhile is_space n"
proof -
  have "\<not> is_space x" "\<not> is_space y" "\<not> is_space z"
    using assms article_letters_not_space by (blast dest: not_space_if_lower)+
  then show ?thesis
    using assms by (simp add: articles_def toLowerCase_def Let_def space_lower)
qed

lemma strip_a:
  assumes "toLowerChar x = CHR ''a''"
    "is_space w"
  shows "strip_article articles ([x] @ w # n) = dropWhile is_space n"
proof -
  have "\<not> is_space x"
    using assms article_letters_not_space by (blast dest: not_space_if_lower)+
  then show ?thesis
    using assms by (simp add: articles_def toLowerCase_def Let_def space_lower)
qed

lemma strip_an:
  assumes "toLowerChar x = CHR ''a''" "toLowerChar y = CHR ''n''"
    "is_space w"
  shows "strip_article articles ([x, y] @ w # n) = dropWhile is_space n"
proof -
  have "\<not> is_space x" "\<not> is_space y"
    using assms article_letters_not_space by (blast dest: not_space_if_lower)+
  then show ?thesis
    using assms by (simp add: articles_def toLowerCase_def Let_def space_lower)
qed

lemma strip_le:
  assumes "toLowerChar x = CHR ''l''" "toLowerChar y = CHR ''e''"
    "is_space w"
  shows "strip_article articles ([x, y] @ w # n) = dropWhile is_space n"
proof -
  have "\<not> is_space x" "\<not> is_space y"
    using assms article_letters_not_space by (blast dest: not_space_if_lower)+
  then show ?thesis
    using assms by (simp add: articles_def toLowerCase_def Let_def space_lower)
qed

lemma strip_la:
  assumes "toLowerChar x = CHR ''l''" "toLowerChar y = CHR ''a''"
    "is_space w"
  shows "strip_article articles ([x, y] @ w # n) = dropWhile is_space n"
proof -
  have "\<not> is_space x" "\<not> is_space y"
    using assms article_letters_not_space by (blast dest: not_space_if_lower)+
  then show ?thesis
    using assms by (simp add: articles_def toLowerCase_def Let_def space_lower)
qed

lemma strip_les:
  assumes "toLowerChar x = CHR ''l''" "toLowerChar y = CHR ''e''" "toLowerChar z = CHR ''s''"
    "is_space w"
  shows "strip_article articles ([x, y, z] @ w # n) = dropWhile is_space n"
proof -
  have "\<not> is_space x" "\<not> is_space y" "\<not> is_space z"
    using assms article_letters_not_space by (blast dest: not_space_if_lower)+
  then show ?thesis
    using assms by (simp add: articles_def toLowerCase_def Let_def space_lower)
qed

lemma strip_l_apostrophe:
  assumes "toLowerChar x = CHR ''l''" "toLowerChar y = CHR 0x27"
    "is_space w"
  shows "strip_article articles ([x, y] @ w # n) = dropWhile is_space n"
proof -
  have "\<not> is_space x" "\<not> is_space y"
    using assms article_letters_not_space by (blast dest: not_space_if_lower)+
  then show ?thesis
    using assms by (simp add: articles_def toLowerCase_def Let_def space_lower)
qed

lemma strip_un:
  assumes "toLowerChar x = CHR ''u''" "toLowerChar y = CHR ''n''"
    "is_space w"
  shows "strip_article articles ([x, y] @ w # n) = dropWhile is_space n"
proof -
  have "\<not> is_space x" "\<not> is_space y"
    using assms article_letters_not_space by (blast dest: not_space_if_lower)+
  then show ?thesis
    using assms by (simp add: articles_def toLowerCase_def Let_def space_lower)
qed

lemma strip_une:
  assumes "toLowerChar x = CHR ''u''" "toLowerChar y = CHR ''n''" "toLowerChar z = CHR ''e''"
    "is_space w"
  shows "strip_article articles ([x, y, z] @ w # n) = dropWhile is_space n"
proof -
  have "\<not> is_space x" "\<not> is_space y" "\<not> is_space z"
    using assms article_letters_not_space by (blast dest: not_space_if_lower)+
  then show ?thesis
    using assms by (simp add: articles_def toLowerCase_def Let_def space_lower)
qed

lemma strip_des:
  assumes "toLowerChar x = CHR ''d''" "toLowerChar y = CHR ''e''" "toLowerChar z = CHR ''s''"
    "is_space w"
  shows "strip_article articles ([x, y, z] @ w # n) = dropWhile is_space n"
proof -
  have "\<not> is_space x" "\<not> is_space y" "\<not> is_space z"
    using assms article_letters_not_space by (blast dest: not_space_if_lower)+
  then show ?thesis
    using assms by (simp add: articles_def toLowerCase_def Let_def space_lower)
qed

text \<open>A name that begins with an article of the list, in any case, followed by white
  space loses the article and the white space.\<close>

lemma strip_article_leading:
  assumes "a \<in> set articles" "toLowerCase p = a" "is_space w"
  shows "strip_article articles (p @ w # n) = dropWhile is_space n"
  using articles_cases [OF assms(1)]
proof (elim disjE)
  assume "a = ''the''"
  with assms(2) obtain x y z where "p = [x, y, z]" "toLowerChar x = CHR ''t''" "toLowerChar y = CHR ''h''" "toLowerChar z = CHR ''e''"
    by (auto simp: toLowerCase_def map_eq_Cons_conv)
  with assms(3) show ?thesis using strip_the [of x y z w n] by simp
next
  assume "a = ''a''"
  with assms(2) obtain x where "p = [x]" "toLowerChar x = CHR ''a''"
    by (auto simp: toLowerCase_def map_eq_Cons_conv)
  with assms(3) show ?thesis using strip_a [of x w n] by simp
next
  assume "a = ''an''"
  with assms(2) obtain x y where "p = [x, y]" "toLowerChar x = CHR ''a''" "toLowerChar y = CHR ''n''"
    by (auto simp: toLowerCase_def map_eq_Cons_conv)
  with assms(3) show ?thesis using strip_an [of x y w n] by simp
next
  assume "a = ''le''"
  with assms(2) obtain x y where "p = [x, y]" "toLowerChar x = CHR ''l''" "toLowerChar y = CHR ''e''"
    by (auto simp: toLowerCase_def map_eq_Cons_conv)
  with assms(3) show ?thesis using strip_le [of x y w n] by simp
next
  assume "a = ''la''"
  with assms(2) obtain x y where "p = [x, y]" "toLowerChar x = CHR ''l''" "toLowerChar y = CHR ''a''"
    by (auto simp: toLowerCase_def map_eq_Cons_conv)
  with assms(3) show ?thesis using strip_la [of x y w n] by simp
next
  assume "a = ''les''"
  with assms(2) obtain x y z where "p = [x, y, z]" "toLowerChar x = CHR ''l''" "toLowerChar y = CHR ''e''" "toLowerChar z = CHR ''s''"
    by (auto simp: toLowerCase_def map_eq_Cons_conv)
  with assms(3) show ?thesis using strip_les [of x y z w n] by simp
next
  assume "a = [CHR ''l'', CHR 0x27]"
  with assms(2) obtain x y where "p = [x, y]" "toLowerChar x = CHR ''l''" "toLowerChar y = CHR 0x27"
    by (auto simp: toLowerCase_def map_eq_Cons_conv)
  with assms(3) show ?thesis using strip_l_apostrophe [of x y w n] by simp
next
  assume "a = ''un''"
  with assms(2) obtain x y where "p = [x, y]" "toLowerChar x = CHR ''u''" "toLowerChar y = CHR ''n''"
    by (auto simp: toLowerCase_def map_eq_Cons_conv)
  with assms(3) show ?thesis using strip_un [of x y w n] by simp
next
  assume "a = ''une''"
  with assms(2) obtain x y z where "p = [x, y, z]" "toLowerChar x = CHR ''u''" "toLowerChar y = CHR ''n''" "toLowerChar z = CHR ''e''"
    by (auto simp: toLowerCase_def map_eq_Cons_conv)
  with assms(3) show ?thesis using strip_une [of x y z w n] by simp
next
  assume "a = ''des''"
  with assms(2) obtain x y z where "p = [x, y, z]" "toLowerChar x = CHR ''d''" "toLowerChar y = CHR ''e''" "toLowerChar z = CHR ''s''"
    by (auto simp: toLowerCase_def map_eq_Cons_conv)
  with assms(3) show ?thesis using strip_des [of x y z w n] by simp
qed

lemma set_trim: "set (trim s) \<subseteq> set s"
proof
  fix c assume "c \<in> set (trim s)"
  then have "c \<in> set (dropWhile is_space (rev (dropWhile is_space s)))"
    by (simp add: trim_def)
  then have "c \<in> set (rev (dropWhile is_space s))" by (rule set_dropWhileD)
  then have "c \<in> set (dropWhile is_space s)" by simp
  then show "c \<in> set s" by (rule set_dropWhileD)
qed

lemma set_squeeze: "set (squeeze b s) \<subseteq> insert (CHR '' '') (set s)"
  by (induction s arbitrary: b) auto

lemma getSortName_symbol_free:
  "CHR 0xA9 \<notin> set (getSortName m) \<and> CHR 0xAE \<notin> set (getSortName m)"
proof -
  let ?f = "filter (\<lambda>c. c \<noteq> CHR 0xA9 \<and> c \<noteq> CHR 0xAE) (strip_article articles m)"
  have "set (getSortName m) \<subseteq> insert (CHR '' '') (set ?f)"
    using set_trim [of "squeeze False ?f"] set_squeeze [of False ?f]
    by (auto simp: getSortName_def Let_def)
  then show ?thesis by auto
qed

lemma getSortName_article:
  assumes "a \<in> set articles" "toLowerCase p = a" "is_space w"
    "strip_article articles n = n" "dropWhile is_space n = n"
  shows "getSortName (p @ w # n) = getSortName n"
  using strip_article_leading [OF assms(1-3), of n] assms(4,5)
  by (simp add: getSortName_def)

text \<open>
  Claim C9: the comparator of the render pass is article-stripped and symbol-stripped.
  The games named \<open>The Witcher\<close>, \<open>A Quiet Place\<close> and \<open>Zelda\<close>, in this order, are
  sorted to Quiet Place, Witcher, Zelda by the ascending selection \<open>AZ\<close> and to Zelda,
  Witcher, Quiet Place by the descending selection \<open>ZA\<close>. \<open>The Alpha\<close> sorts before
  \<open>Beta\<close>, and a name with the registered sign between \<open>A\<close> and \<open>z\<close> sorts after
  \<open>Ab\<close>. In general the comparator compares the sort names of the two games, in the
  direction of the selection; a sort name holds neither the copyright nor the registered
  sign; and a leading article of the list, in any case, followed by white space does not
  change the sort name of a name, nor the comparison of its game with any other.
\<close>

theorem sort_article_stripped:
  "sortGames ''AZ'' [witcher, quiet_place, zelda] = [quiet_place, witcher, zelda] \<and>
   sortGames ''ZA'' [witcher, quiet_place, zelda] = [zelda, witcher, quiet_place] \<and>
   map (getSortName \<circ> name_text) (sortGames ''AZ'' [witcher, quiet_place, zelda])
     = [''Quiet Place'', ''Witcher'', ''Zelda''] \<and>
   map (getSortName \<circ> name_text) (sortGames ''ZA'' [witcher, quiet_place, zelda])
     = [''Zelda'', ''Witcher'', ''Quiet Place''] \<and>
   sortGames ''AZ'' [beta, the_alpha] = [the_alpha, beta] \<and>
   sortGames ''ZA'' [the_alpha, beta] = [beta, the_alpha] \<and>
   sortGames ''AZ'' [az_registered, ab] = [ab, az_registered] \<and>
   compareGames sel g h =
     (if startsWith sel ''Z''
      then localeCompare (getSortName (name_text h)) (getSortName (name_text g))
      else localeCompare (getSortName (name_text g)) (getSortName (name_text h))) \<and>
   CHR 0xA9 \<notin> set (getSortName m) \<and> CHR 0xAE \<notin> set (getSortName m) \<and>
   (a \<in> set articles \<and> toLowerCase p = a \<and> is_space w \<and>
    strip_article articles n = n \<and> dropWhile is_space n = n \<longrightarrow>
      getSortName (p @ w # n) = getSortName n \<and>
      compareGames sel (g\<lparr>name := Some (p @ w # n)\<rparr>) h
        = compareGames sel (g\<lparr>name := Some n\<rparr>) h \<and>
      compareGames sel h (g\<lparr>name := Some (p @ w # n)\<rparr>)
        = compareGames sel h (g\<lparr>name := Some n\<rparr>))"
proof -
  have scenario:
    "sortGames ''AZ'' [witcher, quiet_place, zelda] = [quiet_place, witcher, zelda]"
    "sortGames ''ZA'' [witcher, quiet_place, zelda] = [zelda, witcher, quiet_place]"
    "sortGames ''AZ'' [beta, the_alpha] = [the_alpha, beta]"
    "sortGames ''ZA'' [the_alpha, beta] = [beta, the_alpha]"
    "sortGames ''AZ'' [az_registered, ab] = [ab, az_registered]"
    by (simp_all add: sortGames_def sort_by_def compareGames_def)
  have names:
    "map (getSortName \<circ> name_text) [quiet_place, witcher, zelda]
       = [''Quiet Place'', ''Witcher'', ''Zelda'']"
    "map (getSortName \<circ> name_text) [zelda, witcher, quiet_place]
       = [''Zelda'', ''Witcher'', ''Quiet Place'']"
    by simp_all
  have cmp: "compareGames sel g h =
     (if startsWith sel ''Z''
      then localeCompare (getSortName (name_text h)) (getSortName (name_text g))
      else localeCompare (getSortName (name_text g)) (getSortName (name_text h)))"
    by (simp add: compareGames_def)
  have art: "getSortName (p @ w # n) = getSortName n \<and>
      compareGames sel (g\<lparr>name := Some (p @ w # n)\<rparr>) h
        = compareGames sel (g\<lparr>name := Some n\<rparr>) h \<and>
      compareGames sel h (g\<lparr>name := Some (p @ w # n)\<rparr>)
        = compareGames sel h (g\<lparr>name := Some n\<rparr>)"
    if "a \<in> set articles \<and> toLowerCase p = a \<and> is_space w \<and>
        strip_article articles n = n \<and> dropWhile is_space n = n"
  proof -
    from that have "getSortName (p @ w # n) = getSortName n"
      using getSortName_article [of a p w n] by blast
    then show ?thesis by (simp add: compareGames_def name_text_def)
  qed
  from scenario names cmp art getSortName_symbol_free [of m] show ?thesis
    by (simp only: simp_thms) blast
qed

theorem sort_article_stripped_witness:
  "''the'' \<in> set articles \<and> toLowerCase ''The'' = ''the'' \<and> is_space (CHR '' '') \<and>
   strip_article articles ''Alpha'' = ''Alpha'' \<and> dropWhile is_space ''Alpha'' = ''Alpha'' \<and>
   getSortName ''The Alpha'' = getSortName ''Alpha'' \<and>
   compareGames ''AZ'' the_alpha beta
     = compareGames ''AZ'' (the_alpha\<lparr>name := Some ''Alpha''\<rparr>) beta \<and>
   compareGames ''AZ'' the_alpha beta = -1"
proof -
  have h: "''the'' \<in> set articles \<and> toLowerCase ''The'' = ''the'' \<and> is_space (CHR '' '') \<and>
      strip_article articles ''Alpha'' = ''Alpha'' \<and> dropWhile is_space ''Alpha'' = ''Alpha''"
    by (simp add: articles_def string_defs)
  have n: "the_alpha\<lparr>name := Some (''The'' @ CHR '' '' # ''Alpha'')\<rparr> = the_alpha"
    by (simp add: the_alpha_def)
  note inst = sort_article_stripped [of "''AZ''" the_alpha beta "''Alpha''" "''the''" "''The''"
      "CHR '' ''" "''Alpha''"]
  from inst h
  have "getSortName (''The'' @ CHR '' '' # ''Alpha'') = getSortName ''Alpha''"
    "compareGames ''AZ'' (the_alpha\<lparr>name := Some (''The'' @ CHR '' '' # ''Alpha'')\<rparr>) beta
       = compareGames ''AZ'' (the_alpha\<lparr>name := Some ''Alpha''\<rparr>) beta"
    by blast+
  moreover have "compareGames ''AZ'' the_alpha beta = -1"
    by (simp add: compareGames_def)
  ultimately show ?thesis using h n by simp
qed

section \<open>The image cache: \<^verbatim>\<open>fetchGameImage\<close>\<close>

lemma lookup_write_file: "lookup_file n (write_file n t b dir) = Some (downloaded_file n t b)"
  by (induction dir) (auto simp: lookup_file_def write_file_def remove_file_def downloaded_file_def)

lemma lookup_remove_file: "lookup_file n (remove_file n dir) = None"
  by (induction dir) (auto simp: lookup_file_def remove_file_def)

lemma fetchImageWithRetry_result:
  "fetchImageWithRetry e fl m a t dir = (Settled t' r, dir', u) \<Longrightarrow>
     r = Inl FetchError \<or> r = Inr Placeholder \<or>
     (r = Inr (CacheFile fl) \<and>
      (\<exists>k bytes. attempts e k = Downloaded bytes \<and>
         lookup_file fl dir' = Some (downloaded_file fl (now e) bytes)))"
proof (induction e fl m a t dir arbitrary: t' r dir' u rule: fetchImageWithRetry.induct)
  case (1 e fl maxRetries attempt elapsed dir)
  show ?case
  proof (cases "attempt > maxRetries")
    case True
    with "1.prems" show ?thesis by (simp add: fetchImageWithRetry.simps)
  next
    case False
    have IH: "\<And>d t' r dir' u. attempt \<noteq> maxRetries \<Longrightarrow>
        fetchImageWithRetry e fl maxRetries (attempt + 1) (elapsed + latency e attempt + 1000) d
          = (Settled t' r, dir', u) \<Longrightarrow>
        r = Inl FetchError \<or> r = Inr Placeholder \<or>
        (r = Inr (CacheFile fl) \<and>
          (\<exists>k bytes. attempts e k = Downloaded bytes \<and>
             lookup_file fl dir' = Some (downloaded_file fl (now e) bytes)))"
      using "1.IH" [OF False refl] by blast
    show ?thesis
    proof (cases "attempts e attempt")
      case (Downloaded bytes)
      with "1.prems" False have "r = Inr (CacheFile fl)"
        "lookup_file fl dir' = Some (downloaded_file fl (now e) bytes)"
        by (auto simp: fetchImageWithRetry.simps [of e fl maxRetries attempt] Let_def lookup_write_file
                 split: if_splits)
      with Downloaded show ?thesis by blast
    qed (use "1.prems" False in
          \<open>auto simp: fetchImageWithRetry.simps [of e fl maxRetries attempt] Let_def
                split: if_splits prod.splits dest: IH\<close>)
  qed
qed

lemma fetchWithTimeout_result:
  "fetchWithTimeout e fl timeout dir = (r, dir', u) \<Longrightarrow>
     (\<exists>err. r = Inl err) \<or> r = Inr Placeholder \<or>
     (r = Inr (CacheFile fl) \<and>
      (\<exists>k bytes. attempts e k = Downloaded bytes \<and>
         lookup_file fl dir' = Some (downloaded_file fl (now e) bytes)))"
  using fetchImageWithRetry_result [of e fl 2 0 0 dir]
  by (auto simp: fetchWithTimeout_def split: prod.splits if_splits promise.splits)

lemma fetchOrPlaceholder_result:
  "fetchOrPlaceholder e fl timeout dir = (r, dir', u) \<Longrightarrow>
     r = Inr Placeholder \<or>
     (r = Inr (CacheFile fl) \<and>
      (\<exists>k bytes. attempts e k = Downloaded bytes \<and>
         lookup_file fl dir' = Some (downloaded_file fl (now e) bytes)))"
  using fetchWithTimeout_result [of e fl timeout dir]
  by (auto simp: fetchOrPlaceholder_def split: prod.splits sum.splits)

lemma fetchOrPlaceholder_rejected:
  "fst (fetchWithTimeout e fl timeout dir) = Inl err \<Longrightarrow>
     fst (fetchOrPlaceholder e fl timeout dir) = Inr Placeholder"
  by (auto simp: fetchOrPlaceholder_def split: prod.splits sum.splits)

lemma cacheCheck_hit:
  "cacheCheck e fl dir = Inl (img, dir') \<Longrightarrow>
     img = CacheFile fl \<and>
     (\<exists>f. lookup_file fl dir = Some f \<and> fsize f > 1024 \<and> utimesSync fl (now e) dir = Inr dir')"
  by (auto simp: cacheCheck_def statSync_def split: option.splits sum.splits if_splits)

lemma fileName_examples [simp]:
  "fileName foo_steam = ''steam_1.jpg''" "fileName bar_epic = ''epic_undefined.jpg''"
  "fileName baz_epic = ''epic_undefined.jpg''"
  by (simp_all add: fileName_def platform_text_def foo_steam_def bar_epic_def baz_epic_def)

lemma retry_all_fail:
  "fetchImageWithRetry env_fail fl 2 0 0 dir = (Settled 2300 (Inl FetchError), dir, [])"
  by (simp add: fetchImageWithRetry.simps env_fail_def)

lemma retry_second_attempt:
  "fetchImageWithRetry env_retry fl 2 0 0 []
     = (Settled 1400 (Inr (CacheFile fl)), write_file fl 1000 50000 [], [])"
  by (simp add: fetchImageWithRetry.simps env_retry_def can_open_def lookup_file_def)

lemma lookup_utimesSync:
  "utimesSync n t dir = Inr dir' \<Longrightarrow> lookup_file n dir = Some f \<Longrightarrow>
     lookup_file n dir' = Some (f\<lparr>mtime := t\<rparr>)"
proof -
  have "find (\<lambda>f. fname f = n) (map (\<lambda>g. if fname g = n then g\<lparr>mtime := t\<rparr> else g) dir)
      = map_option (\<lambda>g. g\<lparr>mtime := t\<rparr>) (find (\<lambda>f. fname f = n) dir)"
    by (induction dir) auto
  then show "utimesSync n t dir = Inr dir' \<Longrightarrow> lookup_file n dir = Some f \<Longrightarrow>
     lookup_file n dir' = Some (f\<lparr>mtime := t\<rparr>)"
    by (auto simp: utimesSync_def lookup_file_def split: option.splits if_splits)
qed

lemma cacheCheck_small:
  "lookup_file fl dir = Some f \<Longrightarrow> fsize f \<le> 1024 \<Longrightarrow>
     cacheCheck e fl dir = Inr (unlink_quietly fl dir)"
  by (auto simp: cacheCheck_def statSync_def unlink_quietly_def unlinkSync_def split: sum.splits)

lemma unlink_quietly_removes:
  "lookup_file fl dir = Some f \<Longrightarrow> \<not> unlink_fails f \<Longrightarrow>
     unlink_quietly fl dir = remove_file fl dir"
  by (simp add: unlink_quietly_def unlinkSync_def)

lemma cacheCheck_big:
  "lookup_file fl dir = Some f \<Longrightarrow> fsize f > 1024 \<Longrightarrow> \<not> stat_fails f \<Longrightarrow> \<not> utimes_fails f \<Longrightarrow>
     \<exists>dir'. cacheCheck e fl dir = Inl (CacheFile fl, dir')"
  by (simp add: cacheCheck_def statSync_def utimesSync_def)

lemma small_lookup: "lookup_file (fileName foo_steam) [small_file] = Some small_file"
  by (simp add: lookup_file_def small_file_def)

lemma big_lookup: "lookup_file (fileName foo_steam) [big_file] = Some big_file"
  by (simp add: lookup_file_def big_file_def)

text \<open>The promise that \<^verbatim>\<open>fetchGameImage\<close> returns is never rejected: it resolves to
  the placeholder or to the file URL of the cache file named after the game, and to
  the placeholder whenever the race of the fetch against the timer is rejected.\<close>

lemma fetchGameImage_resolves:
  "(\<exists>img. fst (fetchGameImage e dir g timeout) = Inr img \<and>
          (img = Placeholder \<or> img = CacheFile (fileName g))) \<and>
   (\<forall>dir1 err. cacheCheck e (fileName g) dir = Inr dir1 \<and>
        fst (fetchWithTimeout e (fileName g) timeout dir1) = Inl err
      \<longrightarrow> fst (fetchGameImage e dir g timeout) = Inr Placeholder)"
proof (intro conjI allI impI)
  show "\<exists>img. fst (fetchGameImage e dir g timeout) = Inr img \<and>
          (img = Placeholder \<or> img = CacheFile (fileName g))"
  proof (cases "cacheCheck e (fileName g) dir")
    case (Inl hit)
    then show ?thesis using cacheCheck_hit [of e "fileName g" dir "fst hit" "snd hit"]
      by (auto simp: fetchGameImage_def Let_def split: prod.splits)
  next
    case (Inr dir1)
    obtain r d u where "fetchOrPlaceholder e (fileName g) timeout dir1 = (r, d, u)"
      by (metis prod_cases3)
    with Inr fetchOrPlaceholder_result [OF this] show ?thesis
      by (auto simp: fetchGameImage_def Let_def)
  qed
next
  fix dir1 err
  assume "cacheCheck e (fileName g) dir = Inr dir1 \<and>
          fst (fetchWithTimeout e (fileName g) timeout dir1) = Inl err"
  then show "fst (fetchGameImage e dir g timeout) = Inr Placeholder"
    using fetchOrPlaceholder_rejected [of e "fileName g" timeout dir1 err]
    by (simp add: fetchGameImage_def Let_def)
qed

lemma locked_lookup: "lookup_file (fileName foo_steam) [locked_file] = Some locked_file"
  by (simp add: lookup_file_def locked_file_def)

text \<open>
  Claim C5, at the inputs that break it. The claim says that \<^verbatim>\<open>fetchGameImage\<close> never
  fails outward: on any error in the cache check, the remote lookups or the download it
  returns the placeholder instead of propagating an exception. When the search and the
  grid lookup succeed but the destination of the download cannot be opened for writing,
  the write stream of \<^verbatim>\<open>downloadImage\<close> raises an exception that nothing catches and
  the fetch stays pending; the placeholder that the call returns comes from the timer of
  the race. This happens when the cache directory could not be created, and when the
  cache holds an undersized file of the game that can be neither unlinked nor written.
\<close>

theorem unwritable_destination_raises_uncaught:
  "fetchImageWithRetry env_unwritable (fileName foo_steam) 2 0 0 [] = (Pending, [], [FsError]) \<and>
   fetchGameImage env_unwritable [] foo_steam 3000 = (Inr Placeholder, [], [FsError]) \<and>
   fetchGameImage env_download [locked_file] foo_steam 3000
     = (Inr Placeholder, [locked_file], [FsError])"
proof -
  have a: "fetchImageWithRetry env_unwritable (fileName foo_steam) 2 0 0 [] = (Pending, [], [FsError])"
    by (simp add: fetchImageWithRetry.simps env_unwritable_def can_open_def lookup_file_def)
  have b: "cacheCheck env_unwritable (fileName foo_steam) [] = Inr []"
    by (simp add: cacheCheck_def lookup_file_def)
  have c: "cacheCheck env_download (fileName foo_steam) [locked_file] = Inr [locked_file]"
    using locked_lookup
    by (simp add: cacheCheck_def statSync_def unlinkSync_def unlink_quietly_def locked_file_def)
  have d: "fetchImageWithRetry env_download (fileName foo_steam) 2 0 0 [locked_file]
      = (Pending, [locked_file], [FsError])"
    using locked_lookup
    by (simp add: fetchImageWithRetry.simps env_download_def can_open_def locked_file_def)
  from a b c d show ?thesis
    by (simp add: fetchGameImage_def fetchOrPlaceholder_def fetchWithTimeout_def)
qed

text \<open>
  Claim C7: a cached cover of at most 1024 bytes is never returned. For a game whose
  cache file exists: when its size does not exceed 1024 bytes, \<^verbatim>\<open>fetchGameImage\<close>
  unlinks it (the file is gone unless the unlink itself fails) and returns what the fresh
  fetch gives, the placeholder or the URL of a file that this call has downloaded;
  when the call returns from the cache check, the file is larger than 1024 bytes and its
  modification time has been set to the current time before the return; and a readable
  file larger than 1024 bytes whose times can be set is such a hit.
\<close>

theorem undersized_cache_file_refetched:
  assumes "lookup_file (fileName g) dir = Some f"
  shows "(fsize f \<le> 1024 \<longrightarrow>
            fetchGameImage e dir g timeout
              = fetchOrPlaceholder e (fileName g) timeout (unlink_quietly (fileName g) dir) \<and>
            (\<not> unlink_fails f \<longrightarrow> lookup_file (fileName g) (unlink_quietly (fileName g) dir) = None) \<and>
            (fst (fetchGameImage e dir g timeout) = Inr Placeholder \<or>
             fst (fetchGameImage e dir g timeout) = Inr (CacheFile (fileName g)) \<and>
             (\<exists>k bytes. attempts e k = Downloaded bytes \<and>
                lookup_file (fileName g) (fst (snd (fetchGameImage e dir g timeout)))
                  = Some (downloaded_file (fileName g) (now e) bytes)))) \<and>
         (\<forall>img dir'. cacheCheck e (fileName g) dir = Inl (img, dir') \<longrightarrow>
            fsize f > 1024 \<and>
            fetchGameImage e dir g timeout = (Inr (CacheFile (fileName g)), dir', []) \<and>
            lookup_file (fileName g) dir' = Some (f\<lparr>mtime := now e\<rparr>)) \<and>
         (fsize f > 1024 \<and> \<not> stat_fails f \<and> \<not> utimes_fails f \<longrightarrow>
            (\<exists>dir'. cacheCheck e (fileName g) dir = Inl (CacheFile (fileName g), dir')))"
proof (intro conjI impI allI)
  assume small: "fsize f \<le> 1024"
  show eq: "fetchGameImage e dir g timeout
      = fetchOrPlaceholder e (fileName g) timeout (unlink_quietly (fileName g) dir)"
    using cacheCheck_small [OF assms small] by (simp add: fetchGameImage_def Let_def)
  obtain r d u where
    rd: "fetchOrPlaceholder e (fileName g) timeout (unlink_quietly (fileName g) dir) = (r, d, u)"
    by (metis prod_cases3)
  from fetchOrPlaceholder_result [OF rd] eq rd
  show "fst (fetchGameImage e dir g timeout) = Inr Placeholder \<or>
        fst (fetchGameImage e dir g timeout) = Inr (CacheFile (fileName g)) \<and>
        (\<exists>k bytes. attempts e k = Downloaded bytes \<and>
           lookup_file (fileName g) (fst (snd (fetchGameImage e dir g timeout)))
             = Some (downloaded_file (fileName g) (now e) bytes))"
    by auto
next
  assume "fsize f \<le> 1024" "\<not> unlink_fails f"
  then show "lookup_file (fileName g) (unlink_quietly (fileName g) dir) = None"
    using unlink_quietly_removes [OF assms] by (simp add: lookup_remove_file)
next
  fix img dir'
  assume hit: "cacheCheck e (fileName g) dir = Inl (img, dir')"
  from cacheCheck_hit [OF hit] assms
  have img: "img = CacheFile (fileName g)" and big: "fsize f > 1024"
    and ut: "utimesSync (fileName g) (now e) dir = Inr dir'"
    by auto
  show "fsize f > 1024" by (rule big)
  show "fetchGameImage e dir g timeout = (Inr (CacheFile (fileName g)), dir', [])"
    using hit img by (simp add: fetchGameImage_def Let_def)
  show "lookup_file (fileName g) dir' = Some (f\<lparr>mtime := now e\<rparr>)"
    using lookup_utimesSync [OF ut assms] .
next
  assume "fsize f > 1024 \<and> \<not> stat_fails f \<and> \<not> utimes_fails f"
  then show "\<exists>dir'. cacheCheck e (fileName g) dir = Inl (CacheFile (fileName g), dir')"
    using cacheCheck_big [OF assms] by blast
qed

theorem undersized_cache_file_refetched_witness:
  "lookup_file (fileName foo_steam) [small_file] = Some small_file \<and> fsize small_file \<le> 1024 \<and>
   \<not> unlink_fails small_file \<and>
   lookup_file (fileName foo_steam) (unlink_quietly (fileName foo_steam) [small_file]) = None \<and>
   fetchGameImage env_retry [small_file] foo_steam 3000
     = (Inr (CacheFile ''steam_1.jpg''), [downloaded_file ''steam_1.jpg'' 1000 50000], []) \<and>
   lookup_file (fileName foo_steam) [big_file] = Some big_file \<and> fsize big_file > 1024 \<and>
   \<not> stat_fails big_file \<and> \<not> utimes_fails big_file \<and>
   fetchGameImage env_retry [big_file] foo_steam 3000
     = (Inr (CacheFile ''steam_1.jpg''), [big_file\<lparr>mtime := 1000\<rparr>], [])"
proof -
  have s: "fsize small_file \<le> 1024" "\<not> unlink_fails small_file"
    by (simp_all add: small_file_def)
  have b: "fsize big_file > 1024" "\<not> stat_fails big_file" "\<not> utimes_fails big_file"
    by (simp_all add: big_file_def)
  have u: "unlink_quietly (fileName foo_steam) [small_file] = []"
    by (simp add: unlink_quietly_def unlinkSync_def lookup_file_def remove_file_def small_file_def)
  have f: "fetchOrPlaceholder env_retry ''steam_1.jpg'' 3000 []
      = (Inr (CacheFile ''steam_1.jpg''), [downloaded_file ''steam_1.jpg'' 1000 50000], [])"
    by (simp add: fetchOrPlaceholder_def fetchWithTimeout_def retry_second_attempt write_file_def
        remove_file_def)
  have h: "cacheCheck env_retry (fileName foo_steam) [big_file]
      = Inl (CacheFile ''steam_1.jpg'', [big_file\<lparr>mtime := 1000\<rparr>])"
    by (simp add: cacheCheck_def statSync_def utimesSync_def lookup_file_def big_file_def env_retry_def)
  note small = undersized_cache_file_refetched [OF small_lookup, of env_retry 3000]
  note big = undersized_cache_file_refetched [OF big_lookup, of env_retry 3000]
  from small s u f
  have 1: "lookup_file (fileName foo_steam) (unlink_quietly (fileName foo_steam) [small_file]) = None"
    and 2: "fetchGameImage env_retry [small_file] foo_steam 3000
     = (Inr (CacheFile ''steam_1.jpg''), [downloaded_file ''steam_1.jpg'' 1000 50000], [])"
    by simp_all
  from big h have 3: "fetchGameImage env_retry [big_file] foo_steam 3000
     = (Inr (CacheFile ''steam_1.jpg''), [big_file\<lparr>mtime := 1000\<rparr>], [])"
    by simp
  from 1 2 3 s b small_lookup big_lookup show ?thesis by blast
qed

text \<open>
  Claim C10: the cache key does not tell apart entries without an identity. Two games
  with the same platform and no \<^verbatim>\<open>appid\<close> have the same cache file name, the platform
  followed by \<^verbatim>\<open>_undefined.jpg\<close>; \<^verbatim>\<open>fetchGameImage\<close> does for one what it does for
  the other, and once a valid cover is cached under that name it returns this cover for
  both.
\<close>

theorem cache_key_ignores_missing_identity:
  assumes "appid g1 = Undefined" "appid g2 = Undefined" "platform g1 = platform g2"
  shows "fileName g1 = platform_text g1 @ ''_undefined.jpg'' \<and> fileName g2 = fileName g1 \<and>
         fetchGameImage e dir g2 timeout = fetchGameImage e dir g1 timeout \<and>
         (\<forall>f. lookup_file (fileName g1) dir = Some f \<and> fsize f > 1024 \<and> \<not> stat_fails f \<and> \<not> utimes_fails f
            \<longrightarrow> fst (fetchGameImage e dir g2 timeout) = Inr (CacheFile (fileName g1)))"
proof -
  have n: "fileName g1 = platform_text g1 @ ''_undefined.jpg''" "fileName g2 = fileName g1"
    using assms by (simp_all add: fileName_def platform_text_def)
  then have eq: "fetchGameImage e dir g2 timeout = fetchGameImage e dir g1 timeout"
    by (simp add: fetchGameImage_def Let_def)
  have "fst (fetchGameImage e dir g1 timeout) = Inr (CacheFile (fileName g1))"
    if "lookup_file (fileName g1) dir = Some f" "fsize f > 1024" "\<not> stat_fails f" "\<not> utimes_fails f" for f
    using cacheCheck_big [OF that, of e] by (auto simp: fetchGameImage_def Let_def)
  with n eq show ?thesis by auto
qed


theorem cache_key_ignores_missing_identity_witness:
  "appid bar_epic = Undefined \<and> appid baz_epic = Undefined \<and> platform bar_epic = platform baz_epic \<and>
   bar_epic \<noteq> baz_epic \<and>
   lookup_file (fileName bar_epic) [epic_cover] = Some epic_cover \<and> fsize epic_cover > 1024 \<and>
   \<not> stat_fails epic_cover \<and> \<not> utimes_fails epic_cover \<and>
   fileName baz_epic = ''epic_undefined.jpg'' \<and>
   fst (fetchGameImage env_fail [epic_cover] baz_epic 3000) = Inr (CacheFile (fileName bar_epic))"
proof -
  have g: "appid bar_epic = Undefined" "appid baz_epic = Undefined"
    "platform bar_epic = platform baz_epic" "bar_epic \<noteq> baz_epic"
    by (simp_all add: bar_epic_def baz_epic_def)
  have f: "lookup_file (fileName bar_epic) [epic_cover] = Some epic_cover" "fsize epic_cover > 1024"
    "\<not> stat_fails epic_cover" "\<not> utimes_fails epic_cover"
    by (simp_all add: lookup_file_def epic_cover_def)
  from cache_key_ignores_missing_identity [OF g(1,2,3), of env_fail "[epic_cover]" 3000] f
  have "fst (fetchGameImage env_fail [epic_cover] baz_epic 3000) = Inr (CacheFile (fileName bar_epic))"
    by blast
  with g f show ?thesis by simp
qed


section \<open>The image cache: \<^verbatim>\<open>cleanupCache\<close>\<close>





























lemma heavy_after:
  "cleanupCache heavy_cache =
     [\<lparr>fname = ''steam_1.jpg'', mtime = 20, fsize = 300 * 1048576, stat_fails = False,
        utimes_fails = False, unlink_fails = False, write_fails = False\<rparr>]"
  by (simp add: cleanupCache_def count_pass_def size_pass_def heavy_cache_def MAX_FILES_def
      MAX_CACHE_SIZE_MB_def statSync_def lookup_file_def unlinkSync_def remove_file_def)






end
